theory Spec2Isabelle
  imports Main "HOL-Library.AList" "HOL-Library.Char_ord" "HOL-Library.List_Lexorder"
begin

section \<open>Values shared by the transaction core and the store\<close>

text \<open>
  Python values that travel through the code as JSON: \<open>None\<close>, booleans, unbounded
  integers, strings, lists and dicts. A dict is an association list in insertion order;
  \<open>map_of\<close> is the lookup, \<open>AList.update\<close> the assignment \<open>d[k] = v\<close>.
\<close>

datatype json =
    JNull
  | JBool bool
  | JInt int
  | JStr string
  | JList "json list"
  | JObj "(string \<times> json) list"

text \<open>The exceptions the modelled code raises or catches.\<close>

datatype exn =
    ValueError
  | TypeError
  | KeyError
  | IndexError
  | AttributeError
  | ParsingError
  | ASN1DecodeError
  | ASN1EncodeError
  | InvalidHash
  | KeypairMismatchException
  | InputDoesNotExist
  | DoubleSpend
  | AssetIdMismatch
  | AmountError
  | InvalidSignature

section \<open>The store: \<open>backend/tarantool/query.py\<close>\<close>

text \<open>
  The spaces the two queries read, as the lists of tuples \<open>space.select()\<close> returns.
  \<open>store_block\<close> inserts \<open>(app_hash, height, block_unique_id)\<close> into \<open>blocks\<close> and
  \<open>(txid, block_unique_id)\<close> into \<open>blocks_tx\<close>; \<open>store_validator_set\<close> writes
  \<open>(unique_id, height, validators)\<close> into \<open>validators\<close>.
\<close>

type_synonym block_row = "string \<times> int \<times> string"
type_synonym block_tx_row = "string \<times> string"
type_synonym validator_row = "string \<times> int \<times> json"

record connection =
  blocks :: "block_row list"
  blocks_tx :: "block_tx_row list"
  validators :: "validator_row list"

text \<open>\<open>itemgetter(1)\<close> on a three-field tuple.\<close>

definition itemgetter1 :: "'a \<times> 'b \<times> 'c \<Rightarrow> 'b" where
  "itemgetter1 row = fst (snd row)"

text \<open>
  \<open>latest_block\<close>: \<open>sorted(_all_blocks, key=itemgetter(1))[0]\<close> (a stable ascending sort;
  \<open>[0]\<close> of an empty list raises IndexError), then the \<open>blocks_tx\<close> rows whose second
  field is \<open>_block[2]\<close>, and the dict
  \<open>{"app_hash": _block[1], "height": _block[1], "transactions": [tx[0] for tx in _txids]}\<close>.
\<close>

definition latest_block :: "connection \<Rightarrow> exn + json" where
  "latest_block conn =
     (case sort_key itemgetter1 (blocks conn) of
        [] \<Rightarrow> Inl IndexError
      | block # _ \<Rightarrow>
          (let txids = filter (\<lambda>tx. snd tx = snd (snd block)) (blocks_tx conn)
           in Inr (JObj [(''app_hash'', JInt (itemgetter1 block)),
                         (''height'', JInt (itemgetter1 block)),
                         (''transactions'', JList (map (\<lambda>tx. JStr (fst tx)) txids))])))"

text \<open>
  \<open>get_validator_set\<close>: with a height, the rows with \<open>validator[1] <= height\<close>; in both
  branches \<open>next(iter(sorted(_validators, key=itemgetter(1))), None)\<close>.
\<close>

definition next_iter :: "'a list \<Rightarrow> 'a option" where
  "next_iter xs = (case xs of [] \<Rightarrow> None | x # _ \<Rightarrow> Some x)"

definition get_validator_set :: "connection \<Rightarrow> int option \<Rightarrow> validator_row option" where
  "get_validator_set conn height =
     (case height of
        Some h \<Rightarrow>
          next_iter (sort_key itemgetter1
            (filter (\<lambda>validator. itemgetter1 validator \<le> h) (validators conn)))
      | None \<Rightarrow> next_iter (sort_key itemgetter1 (validators conn)))"

text \<open>Two stored blocks and two stored validator sets, used as concrete inputs below.\<close>

definition two_blocks :: connection where
  "two_blocks =
     \<lparr>blocks = [(''hash_one'', 1, ''uid_one''), (''hash_two'', 2, ''uid_two'')],
      blocks_tx = [(''tx_a'', ''uid_one''), (''tx_b'', ''uid_two'')],
      validators = [(''v_one'', 1, JList [JStr ''old'']), (''v_five'', 5, JList [JStr ''new''])]\<rparr>"

section \<open>The transaction core: \<open>transactions/common/transaction.py\<close>\<close>

subsection \<open>Data\<close>

text \<open>
  \<open>TransactionLink\<close>, \<open>Input\<close> and \<open>Output\<close> live in files that are not part of the
  sources at hand; the records hold the attributes \<open>transaction.py\<close> reads. A
  fulfillment is one of the two crypto-condition kinds the signing code dispatches on,
  or any other kind. An absent link (\<open>if input_.fulfills\<close> is false) is \<open>None\<close>.
\<close>

record transaction_link =
  txid :: string
  output_index :: int

datatype fulfillment =
    Ed25519Sha256 string "string option"
  | ThresholdSha256 nat "fulfillment list"
  | OtherFulfillment string

record tx_input =
  fulfillment :: "fulfillment option"
  owners_before :: "string list"
  fulfills :: "transaction_link option"

record tx_output =
  out_fulfillment :: fulfillment
  public_keys :: "string list"
  amount :: int

text \<open>
  The attributes \<open>__init__\<close> sets; \<open>hash_id\<close> is \<open>self._id\<close>. The decorators
  \<open>memoize_to_dict\<close>, \<open>memoize_from_dict\<close> and \<open>lru_cache\<close> are caches. The caches are
  taken to be empty, so that the wrapped function runs; what a decorator does before it
  looks into its cache is modelled with \<open>to_dict\<close>, \<open>_input_valid\<close> and \<open>from_dict\<close>
  below.
\<close>

record transaction =
  version :: json
  operation :: string
  asset :: json
  inputs :: "tx_input list"
  outputs :: "tx_output list"
  metadata :: json
  hash_id :: json
  tx_dict :: "json option"

definition CREATE :: string where
  "CREATE = ''CREATE''"

definition TRANSFER :: string where
  "TRANSFER = ''TRANSFER''"

definition VERSION :: string where
  "VERSION = ''2.0''"

subsection \<open>The collaborators outside the sources\<close>

text \<open>
  What the crypto-conditions library can raise inside \<open>_input_valid\<close>: the five
  exception classes the \<open>except\<close> clause names, and anything else.
\<close>

datatype lib_exn =
    Lib_TypeError
  | Lib_ValueError
  | Lib_ParsingError
  | Lib_ASN1DecodeError
  | Lib_ASN1EncodeError
  | Lib_AttributeError

fun raise_lib :: "lib_exn \<Rightarrow> exn" where
  "raise_lib Lib_TypeError = TypeError"
| "raise_lib Lib_ValueError = ValueError"
| "raise_lib Lib_ParsingError = ParsingError"
| "raise_lib Lib_ASN1DecodeError = ASN1DecodeError"
| "raise_lib Lib_ASN1EncodeError = ASN1EncodeError"
| "raise_lib Lib_AttributeError = AttributeError"

text \<open>
  The exceptions of Python and of the library, as opposed to the ones the repository
  defines.
\<close>

definition python_error :: "exn \<Rightarrow> bool" where
  "python_error e =
     (e \<in> {ValueError, TypeError, KeyError, IndexError, AttributeError, ParsingError,
            ASN1DecodeError, ASN1EncodeError})"

text \<open>
  The functions \<open>transaction.py\<close> imports: \<open>serialize\<close> and \<open>hash_data\<close> (the canonical
  codec), \<open>sha3_256(...).digest()\<close>, the dict conversions of \<open>Input\<close> and \<open>Output\<close>, key
  derivation (\<open>gen_public_key(PrivateKey(k))\<close>), \<open>base58.b58decode\<close>, the Ed25519
  signature of a digest under a raw private key, and the crypto-conditions library's
  \<open>serialize_uri\<close>, \<open>Fulfillment.from_uri\<close>, \<open>validate\<close>, \<open>condition_uri\<close>, and
  \<open>TransactionLink.to_uri\<close>. They are parameters of the model. \<open>Input.to_dict\<close> and
  \<open>Output.to_dict\<close> are given by their two outcomes: what the call raises, if anything,
  and the dict it returns otherwise.
\<close>

record deps =
  serialize :: "json \<Rightarrow> string"
  hash_data :: "string \<Rightarrow> string"
  sha3_256 :: "string \<Rightarrow> string"
  input_to_dict :: "tx_input \<Rightarrow> json"
  output_to_dict :: "tx_output \<Rightarrow> json"
  input_to_dict_raises :: "tx_input \<Rightarrow> lib_exn option"
  output_to_dict_raises :: "tx_output \<Rightarrow> lib_exn option"
  input_from_dict :: "json \<Rightarrow> exn + tx_input"
  output_from_dict :: "json \<Rightarrow> exn + tx_output"
  gen_public_key :: "string \<Rightarrow> string"
  b58decode :: "string \<Rightarrow> string"
  ed25519_sign :: "string \<Rightarrow> string \<Rightarrow> string"
  serialize_uri :: "fulfillment \<Rightarrow> lib_exn + string"
  from_uri :: "string \<Rightarrow> lib_exn + fulfillment"
  validate :: "fulfillment \<Rightarrow> string \<Rightarrow> bool"
  condition_uri :: "fulfillment \<Rightarrow> string"
  to_uri :: "transaction_link \<Rightarrow> string"

subsection \<open>Python primitives\<close>

text \<open>\<open>d[k]\<close> and \<open>d[k] = v\<close> with a string key: only a dict supports them.\<close>

definition getitem :: "json \<Rightarrow> string \<Rightarrow> exn + json" where
  "getitem d k =
     (case d of
        JObj kvs \<Rightarrow> (case map_of kvs k of None \<Rightarrow> Inl KeyError | Some v \<Rightarrow> Inr v)
      | _ \<Rightarrow> Inl TypeError)"

definition setitem :: "json \<Rightarrow> string \<Rightarrow> json \<Rightarrow> exn + json" where
  "setitem d k v =
     (case d of
        JObj kvs \<Rightarrow> Inr (JObj (AList.update k v kvs))
      | _ \<Rightarrow> Inl TypeError)"

text \<open>Truth value of an object in a condition.\<close>

fun truthy :: "json \<Rightarrow> bool" where
  "truthy JNull = False"
| "truthy (JBool b) = b"
| "truthy (JInt i) = (i \<noteq> 0)"
| "truthy (JStr s) = (s \<noteq> [])"
| "truthy (JList xs) = (xs \<noteq> [])"
| "truthy (JObj kvs) = (kvs \<noteq> [])"

text \<open>\<open>xs[i]\<close>: a negative index counts from the end, an index out of range raises.\<close>

definition list_index :: "'a list \<Rightarrow> int \<Rightarrow> exn + 'a" where
  "list_index xs i =
     (if 0 \<le> i \<and> i < int (length xs) then Inr (xs ! nat i)
      else if i < 0 \<and> - int (length xs) \<le> i then Inr (xs ! nat (int (length xs) + i))
      else Inl IndexError)"

text \<open>
  Hashing and comparing values. A list or a dict cannot be hashed (TypeError). \<open>True\<close>
  and \<open>False\<close> are the integers 1 and 0, so values that are no lists or dicts are
  equal when their keys are.
\<close>

definition hashable :: "json \<Rightarrow> bool" where
  "hashable x = (case x of JList xs \<Rightarrow> False | JObj kvs \<Rightarrow> False | _ \<Rightarrow> True)"

definition py_key :: "json \<Rightarrow> json" where
  "py_key x = (case x of JBool b \<Rightarrow> JInt (if b then 1 else 0) | _ \<Rightarrow> x)"

text \<open>
  \<open>==\<close> on values: lists are equal when their elements are, in order; dicts are equal
  when they have the same keys with equal values, in whatever order the keys are.
\<close>

inductive py_eq :: "json \<Rightarrow> json \<Rightarrow> bool" where
  scalars: "hashable x \<Longrightarrow> hashable y \<Longrightarrow> py_key x = py_key y \<Longrightarrow> py_eq x y"
| lists: "list_all2 py_eq xs ys \<Longrightarrow> py_eq (JList xs) (JList ys)"
| dicts: "(\<And>k. rel_option py_eq (map_of kvs k) (map_of kvs' k)) \<Longrightarrow>
          py_eq (JObj kvs) (JObj kvs')"

text \<open>
  \<open>codecs.decode(s, 'hex')\<close> succeeds on an even number of hexadecimal digits.
\<close>

definition is_hex :: "string \<Rightarrow> bool" where
  "is_hex s = (even (length s) \<and> list_all (\<lambda>ch. ch \<in> set ''0123456789abcdefABCDEF'') s)"

text \<open>The first exception a comprehension's element expression raises, if any.\<close>

fun first_raise :: "('a \<Rightarrow> lib_exn option) \<Rightarrow> 'a list \<Rightarrow> lib_exn option" where
  "first_raise f [] = None"
| "first_raise f (x # xs) = (case f x of Some e \<Rightarrow> Some e | None \<Rightarrow> first_raise f xs)"

text \<open>\<open>str(n)\<close> of an integer, as \<open>'{}'.format\<close> renders it.\<close>

definition digit_char :: "nat \<Rightarrow> char" where
  "digit_char d = ''0123456789'' ! d"

function str_pos :: "int \<Rightarrow> string" where
  "str_pos n =
     (if n < 10 then [digit_char (nat n)]
      else str_pos (n div 10) @ [digit_char (nat (n mod 10))])"
  by pat_completeness auto
termination
  by (relation "measure nat") auto

declare str_pos.simps [simp del]

definition str_int :: "int \<Rightarrow> string" where
  "str_int i = (if i < 0 then CHR ''-'' # str_pos (- i) else str_pos i)"

subsection \<open>Dict form, signature removal, hashing\<close>

definition to_dict :: "deps \<Rightarrow> transaction \<Rightarrow> json" where
  "to_dict c self =
     JObj [(''inputs'', JList (map (input_to_dict c) (inputs self))),
           (''outputs'', JList (map (output_to_dict c) (outputs self))),
           (''operation'', JStr (operation self)),
           (''metadata'', metadata self),
           (''asset'', asset self),
           (''version'', version self),
           (''id'', hash_id self)]"

text \<open>
  A call of \<open>to_dict\<close>. With a truthy id, \<open>memoize_to_dict\<close> hashes the id, the key of
  its cache, first (TypeError for a list or a dict). Then the comprehensions over the
  inputs and over the outputs run, and the first conversion that raises ends the call.
  Otherwise the call returns the dict above.
\<close>

definition to_dict_raises :: "deps \<Rightarrow> transaction \<Rightarrow> exn option" where
  "to_dict_raises c self =
     (if truthy (hash_id self) \<and> \<not> hashable (hash_id self) then Some TypeError
      else (case first_raise (input_to_dict_raises c) (inputs self) of
              Some e \<Rightarrow> Some (raise_lib e)
            | None \<Rightarrow>
                (case first_raise (output_to_dict_raises c) (outputs self) of
                   Some e \<Rightarrow> Some (raise_lib e)
                 | None \<Rightarrow> None)))"

definition call_to_dict :: "deps \<Rightarrow> transaction \<Rightarrow> exn + json" where
  "call_to_dict c self =
     (case to_dict_raises c self of
        Some e \<Rightarrow> Inl e
      | None \<Rightarrow> Inr (to_dict c self))"

text \<open>
  \<open>_remove_signatures\<close>: on a deep copy, \<open>input_['fulfillment'] = None\<close> for every element
  of \<open>tx_dict['inputs']\<close>. Iterating an empty dict or string does nothing; a value that
  is not iterable, or an element that is no dict, raises TypeError.
\<close>

fun null_fulfillments :: "json list \<Rightarrow> exn + json list" where
  "null_fulfillments [] = Inr []"
| "null_fulfillments (inp # rest) =
     (case setitem inp ''fulfillment'' JNull of
        Inl e \<Rightarrow> Inl e
      | Inr inp' \<Rightarrow>
          (case null_fulfillments rest of
             Inl e \<Rightarrow> Inl e
           | Inr rest' \<Rightarrow> Inr (inp' # rest')))"

definition remove_signatures :: "json \<Rightarrow> exn + json" where
  "remove_signatures tx =
     (case getitem tx ''inputs'' of
        Inl e \<Rightarrow> Inl e
      | Inr (JList xs) \<Rightarrow>
          (case null_fulfillments xs of
             Inl e \<Rightarrow> Inl e
           | Inr xs' \<Rightarrow> setitem tx ''inputs'' (JList xs'))
      | Inr (JObj []) \<Rightarrow> Inr tx
      | Inr (JStr []) \<Rightarrow> Inr tx
      | Inr _ \<Rightarrow> Inl TypeError)"

text \<open>\<open>_hash\<close>: \<open>self._id = hash_data(self.serialized)\<close>.\<close>

definition serialized :: "deps \<Rightarrow> transaction \<Rightarrow> string" where
  "serialized c self = serialize c (to_dict c self)"

definition tx_hash :: "deps \<Rightarrow> transaction \<Rightarrow> transaction" where
  "tx_hash c self = self\<lparr>hash_id := JStr (hash_data c (serialized c self))\<rparr>"

text \<open>A call of \<open>_hash\<close>: the call of \<open>to_dict\<close> in \<open>serialized\<close> can raise.\<close>

definition call_hash :: "deps \<Rightarrow> transaction \<Rightarrow> exn + transaction" where
  "call_hash c self =
     (case to_dict_raises c self of
        Some e \<Rightarrow> Inl e
      | None \<Rightarrow> Inr (tx_hash c self))"

text \<open>
  \<open>validate_id\<close>: the JSON round trip copies the body; a body without \<open>id\<close> raises
  InvalidHash; then \<open>tx_body['id'] = None\<close>, and the proposed id is compared with the
  hash of the serialized body.
\<close>

definition validate_id :: "deps \<Rightarrow> json \<Rightarrow> exn + unit" where
  "validate_id c tx_body =
     (case tx_body of
        JObj kvs \<Rightarrow>
          (case map_of kvs ''id'' of
             None \<Rightarrow> Inl InvalidHash
           | Some proposed_tx_id \<Rightarrow>
               (let tx_body_serialized = serialize c (JObj (AList.update ''id'' JNull kvs));
                    valid_tx_id = hash_data c tx_body_serialized
                in if proposed_tx_id \<noteq> JStr valid_tx_id then Inl InvalidHash else Inr ()))
      | _ \<Rightarrow> Inl TypeError)"

subsection \<open>Signing\<close>

text \<open>
  Modelled from the spec: the crypto-conditions library is not part of the sources.
  \<open>Sign\<close> attaches an Ed25519 signature at a leaf; the subcondition lookup by verifying
  key locates, in a threshold node, the Ed25519 leaves whose public key equals a given
  value. The lookup returns the leaves themselves, and signing them changes the tree
  they belong to: \<open>sign_leaves\<close> is that change.
\<close>

fun attach_signature :: "string \<Rightarrow> fulfillment \<Rightarrow> fulfillment" where
  "attach_signature sg (Ed25519Sha256 pk s) = Ed25519Sha256 pk (Some sg)"
| "attach_signature sg f = f"

fun get_subcondition_from_vk :: "fulfillment \<Rightarrow> string \<Rightarrow> fulfillment list" where
  "get_subcondition_from_vk (Ed25519Sha256 pk s) vk =
     (if pk = vk then [Ed25519Sha256 pk s] else [])"
| "get_subcondition_from_vk (ThresholdSha256 t subs) vk =
     concat (map (\<lambda>sub. get_subcondition_from_vk sub vk) subs)"
| "get_subcondition_from_vk (OtherFulfillment x) vk = []"

fun sign_leaves :: "string \<Rightarrow> string \<Rightarrow> fulfillment \<Rightarrow> fulfillment" where
  "sign_leaves vk sg (Ed25519Sha256 pk s) =
     (if pk = vk then attach_signature sg (Ed25519Sha256 pk s) else Ed25519Sha256 pk s)"
| "sign_leaves vk sg (ThresholdSha256 t subs) =
     ThresholdSha256 t (map (sign_leaves vk sg) subs)"
| "sign_leaves vk sg (OtherFulfillment x) = OtherFulfillment x"

text \<open>
  The digest both signing and validation compute:
  \<open>sha3_256(message.encode())\<close>, updated with \<open>'{}{}'.format(txid, output)\<close> when the
  input has a link.
\<close>

definition message_digest :: "deps \<Rightarrow> string \<Rightarrow> tx_input \<Rightarrow> string" where
  "message_digest c message inp =
     sha3_256 c (message @
       (case fulfills inp of
          None \<Rightarrow> []
        | Some link \<Rightarrow> txid link @ str_int (output_index link)))"

text \<open>
  \<open>key_pairs\<close>: the dict comprehension from derived public key to private key; a later
  key replaces an earlier one with the same public key.
\<close>

definition key_pairs_of :: "deps \<Rightarrow> string list \<Rightarrow> (string \<rightharpoonup> string)" where
  "key_pairs_of c private_keys =
     fold (\<lambda>private_key m. m(gen_public_key c private_key \<mapsto> private_key))
       private_keys Map.empty"

text \<open>
  \<open>_sign_simple_signature_fulfillment\<close>: works on a deep copy of the input;
  \<open>owners_before[0]\<close> raises IndexError on an empty list, a public key without a
  private key raises KeypairMismatchException.
\<close>

definition sign_simple_signature_fulfillment ::
  "deps \<Rightarrow> tx_input \<Rightarrow> string \<Rightarrow> (string \<rightharpoonup> string) \<Rightarrow> exn + tx_input" where
  "sign_simple_signature_fulfillment c inp message key_pairs =
     (case owners_before inp of
        [] \<Rightarrow> Inl IndexError
      | public_key # _ \<Rightarrow>
          (case key_pairs public_key of
             None \<Rightarrow> Inl KeypairMismatchException
           | Some private_key \<Rightarrow>
               Inr (inp\<lparr>fulfillment :=
                 map_option
                   (attach_signature
                      (ed25519_sign c (message_digest c message inp) (b58decode c private_key)))
                   (fulfillment inp)\<rparr>)))"

text \<open>
  \<open>_sign_threshold_signature_fulfillment\<close>: for each distinct owner (the iteration
  order of \<open>set(owners_before)\<close> is taken to be the order of first occurrence), the
  leaves with the owner's key must exist and the owner must have a private key; every
  such leaf is signed. All of it happens on a deep copy of the input.
\<close>

fun sign_owners ::
  "deps \<Rightarrow> string \<Rightarrow> (string \<rightharpoonup> string) \<Rightarrow> string list \<Rightarrow> fulfillment \<Rightarrow> exn + fulfillment" where
  "sign_owners c digest key_pairs [] ccffill = Inr ccffill"
| "sign_owners c digest key_pairs (owner_before # rest) ccffill =
     (if get_subcondition_from_vk ccffill (b58decode c owner_before) = []
      then Inl KeypairMismatchException
      else (case key_pairs owner_before of
              None \<Rightarrow> Inl KeypairMismatchException
            | Some private_key \<Rightarrow>
                sign_owners c digest key_pairs rest
                  (sign_leaves (b58decode c owner_before)
                     (ed25519_sign c digest (b58decode c private_key)) ccffill)))"

definition sign_threshold_signature_fulfillment ::
  "deps \<Rightarrow> tx_input \<Rightarrow> string \<Rightarrow> (string \<rightharpoonup> string) \<Rightarrow> exn + tx_input" where
  "sign_threshold_signature_fulfillment c inp message key_pairs =
     (case fulfillment inp of
        None \<Rightarrow> Inl AttributeError
      | Some ccffill \<Rightarrow>
          (case sign_owners c (message_digest c message inp) key_pairs
                  (remdups (owners_before inp)) ccffill of
             Inl e \<Rightarrow> Inl e
           | Inr signed \<Rightarrow> Inr (inp\<lparr>fulfillment := Some signed\<rparr>)))"

text \<open>\<open>_sign_input\<close>: the dispatch on the fulfillment's class.\<close>

definition sign_input ::
  "deps \<Rightarrow> tx_input \<Rightarrow> string \<Rightarrow> (string \<rightharpoonup> string) \<Rightarrow> exn + tx_input" where
  "sign_input c inp message key_pairs =
     (case fulfillment inp of
        Some (Ed25519Sha256 pk s) \<Rightarrow> sign_simple_signature_fulfillment c inp message key_pairs
      | Some (ThresholdSha256 t subs) \<Rightarrow>
          sign_threshold_signature_fulfillment c inp message key_pairs
      | _ \<Rightarrow> Inl ValueError)"

text \<open>
  The loop of \<open>sign\<close>: \<open>self.inputs[i] = self._sign_input(input_, ...)\<close> for each
  position in turn. The result is the exception that ended the loop, if any, and the
  list \<open>self.inputs\<close> as the loop left it.
\<close>

fun sign_inputs ::
  "deps \<Rightarrow> string \<Rightarrow> (string \<rightharpoonup> string) \<Rightarrow> tx_input list \<Rightarrow> exn option \<times> tx_input list" where
  "sign_inputs c message key_pairs [] = (None, [])"
| "sign_inputs c message key_pairs (inp # rest) =
     (case sign_input c inp message key_pairs of
        Inl e \<Rightarrow> (Some e, inp # rest)
      | Inr signed \<Rightarrow>
          (case sign_inputs c message key_pairs rest of
             (r, rest') \<Rightarrow> (r, signed # rest')))"

text \<open>
  \<open>sign\<close>, on the object: the result is the exception raised (\<open>None\<close> when the method
  returns \<open>self\<close>) and the transaction object as the call leaves it. \<open>private_keys\<close> is
  a list by its type, so the TypeError guard does not arise. The method can raise
  before the loop (in \<open>to_dict\<close> or \<open>_remove_signatures\<close>), in the loop, and after it (in
  \<open>_hash\<close>).
\<close>

definition signing_message :: "deps \<Rightarrow> transaction \<Rightarrow> exn + string" where
  "signing_message c self =
     (case call_to_dict c self of
        Inl e \<Rightarrow> Inl e
      | Inr tx \<Rightarrow>
          (case remove_signatures tx of
             Inl e \<Rightarrow> Inl e
           | Inr tx' \<Rightarrow> Inr (serialize c tx')))"

definition sign :: "deps \<Rightarrow> string list \<Rightarrow> transaction \<Rightarrow> exn option \<times> transaction" where
  "sign c private_keys self =
     (let key_pairs = key_pairs_of c private_keys
      in case signing_message c self of
           Inl e \<Rightarrow> (Some e, self)
         | Inr tx_serialized \<Rightarrow>
             (case sign_inputs c tx_serialized key_pairs (inputs self) of
                (Some e, ins) \<Rightarrow> (Some e, self\<lparr>inputs := ins\<rparr>)
              | (None, ins) \<Rightarrow>
                  (case call_hash c (self\<lparr>inputs := ins\<rparr>) of
                     Inl e \<Rightarrow> (Some e, self\<lparr>inputs := ins\<rparr>)
                   | Inr self' \<Rightarrow> (None, self'))))"

subsection \<open>Validating the inputs' fulfillments\<close>

text \<open>The \<open>except\<close> clause of \<open>_input_valid\<close>.\<close>

fun caught :: "lib_exn \<Rightarrow> bool" where
  "caught Lib_TypeError = True"
| "caught Lib_ValueError = True"
| "caught Lib_ParsingError = True"
| "caught Lib_ASN1DecodeError = True"
| "caught Lib_ASN1EncodeError = True"
| "caught Lib_AttributeError = False"

text \<open>\<open>Fulfillment.from_uri(ccffill.serialize_uri())\<close>, the body of the \<open>try\<close>.\<close>

definition reparse :: "deps \<Rightarrow> fulfillment \<Rightarrow> lib_exn + fulfillment" where
  "reparse c ccffill =
     (case serialize_uri c ccffill of
        Inl e \<Rightarrow> Inl e
      | Inr uri \<Rightarrow> from_uri c uri)"

text \<open>
  \<open>_input_valid\<close>. An input without a fulfillment object has no \<open>serialize_uri\<close>
  (AttributeError, which the \<open>except\<close> clause does not name).
\<close>

definition input_valid :: "deps \<Rightarrow> tx_input \<Rightarrow> string \<Rightarrow> string \<Rightarrow> string \<Rightarrow> exn + bool" where
  "input_valid c inp op message output_condition_uri =
     (case fulfillment inp of
        None \<Rightarrow> Inl AttributeError
      | Some ccffill \<Rightarrow>
          (case reparse c ccffill of
             Inl e \<Rightarrow> if caught e then Inr False else Inl (raise_lib e)
           | Inr parsed_ffill \<Rightarrow>
               (let output_valid =
                      (if op = CREATE then True
                       else output_condition_uri = condition_uri c ccffill);
                    ffill_valid = validate c parsed_ffill (message_digest c message inp)
                in Inr (output_valid \<and> ffill_valid))))"

text \<open>
  A call of \<open>_input_valid\<close>: \<open>lru_cache\<close> hashes the arguments for its key before the
  body runs, and \<open>__hash__\<close> of a transaction is \<open>hash(self.id)\<close> (TypeError for a list
  or a dict).
\<close>

definition call_input_valid ::
  "deps \<Rightarrow> transaction \<Rightarrow> tx_input \<Rightarrow> string \<Rightarrow> string \<Rightarrow> string \<Rightarrow> exn + bool" where
  "call_input_valid c self inp op message output_condition_uri =
     (if hashable (hash_id self) then input_valid c inp op message output_condition_uri
      else Inl TypeError)"

text \<open>
  \<open>all(validate(i, cond) for i, cond in enumerate(output_condition_uris))\<close>: the
  conditions in order, each with \<open>self.inputs[i]\<close>, stopping at the first \<open>False\<close> or
  at the first exception.
\<close>

fun all_valid :: "(tx_input \<Rightarrow> string \<Rightarrow> exn + bool) \<Rightarrow> tx_input list \<Rightarrow> string list \<Rightarrow> exn + bool" where
  "all_valid v ins [] = Inr True"
| "all_valid v [] (cond # conds) = Inl IndexError"
| "all_valid v (inp # rest) (cond # conds) =
     (case v inp cond of
        Inl e \<Rightarrow> Inl e
      | Inr ok \<Rightarrow> if ok then all_valid v rest conds else Inr False)"

text \<open>
  \<open>_inputs_valid\<close>; \<open>self.tx_dict if self.tx_dict else self.to_dict()\<close> is the dict it
  works on.
\<close>

definition dict_for_validation :: "deps \<Rightarrow> transaction \<Rightarrow> exn + json" where
  "dict_for_validation c self =
     (case tx_dict self of
        None \<Rightarrow> call_to_dict c self
      | Some d \<Rightarrow> if truthy d then Inr d else call_to_dict c self)"

definition inputs_valid_uris :: "deps \<Rightarrow> transaction \<Rightarrow> string list \<Rightarrow> exn + bool" where
  "inputs_valid_uris c self output_condition_uris =
     (if length (inputs self) \<noteq> length output_condition_uris then Inl ValueError
      else
        (case dict_for_validation c self of
           Inl e \<Rightarrow> Inl e
         | Inr tx \<Rightarrow>
             (case remove_signatures tx of
                Inl e \<Rightarrow> Inl e
              | Inr tx' \<Rightarrow>
                  (case setitem tx' ''id'' JNull of
                     Inl e \<Rightarrow> Inl e
                   | Inr tx'' \<Rightarrow>
                       all_valid
                         (\<lambda>inp cond.
                            call_input_valid c self inp (operation self) (serialize c tx'') cond)
                         (inputs self) output_condition_uris))))"

text \<open>\<open>inputs_valid\<close>; \<open>outputs\<close> defaults to \<open>None\<close>, which cannot be iterated.\<close>

definition inputs_valid :: "deps \<Rightarrow> transaction \<Rightarrow> tx_output list option \<Rightarrow> exn + bool" where
  "inputs_valid c self outs =
     (if operation self = CREATE
      then inputs_valid_uris c self (map (\<lambda>_. ''dummyvalue'') (inputs self))
      else if operation self = TRANSFER
      then (case outs of
              None \<Rightarrow> Inl TypeError
            | Some os \<Rightarrow>
                inputs_valid_uris c self
                  (map (\<lambda>out. condition_uri c (out_fulfillment out)) os))
      else Inl TypeError)"

subsection \<open>Validating the inputs of a TRANSFER\<close>

text \<open>
  The two queries \<open>validate_transfer_inputs\<close> makes on \<open>planet\<close>, an object of a class
  outside the sources: \<open>get_transaction\<close> returns a transaction or \<open>None\<close>, and the
  result of \<open>get_spent\<close> is only tested for truth.
\<close>

record planetmint =
  get_transaction :: "string \<Rightarrow> transaction option"
  get_spent :: "string \<Rightarrow> int \<Rightarrow> transaction list \<Rightarrow> bool"

text \<open>
  The first loop: each input's transaction is looked up in the store, then among
  \<open>current_transactions\<close> (the last one with that id wins), the output must not be
  spent, and \<open>input_tx.outputs[input_.fulfills.output]\<close> is collected.
\<close>

fun resolve_inputs ::
  "planetmint \<Rightarrow> transaction list \<Rightarrow> tx_input list \<Rightarrow> exn + (tx_output list \<times> transaction list)" where
  "resolve_inputs planet current_transactions [] = Inr ([], [])"
| "resolve_inputs planet current_transactions (inp # rest) =
     (case fulfills inp of
        None \<Rightarrow> Inl AttributeError
      | Some link \<Rightarrow>
          (case (case get_transaction planet (txid link) of
                   Some tx \<Rightarrow> Some tx
                 | None \<Rightarrow>
                     List.find (\<lambda>ctxn. hash_id ctxn = JStr (txid link))
                       (rev current_transactions)) of
             None \<Rightarrow> Inl InputDoesNotExist
           | Some input_tx \<Rightarrow>
               if get_spent planet (txid link) (output_index link) current_transactions
               then Inl DoubleSpend
               else (case list_index (outputs input_tx) (output_index link) of
                       Inl e \<Rightarrow> Inl e
                     | Inr out \<Rightarrow>
                         (case resolve_inputs planet current_transactions rest of
                            Inl e \<Rightarrow> Inl e
                          | Inr (input_conditions, input_txs) \<Rightarrow>
                              Inr (out # input_conditions, input_tx # input_txs)))))"

text \<open>\<open>[i.fulfills.to_uri() for i in self.inputs]\<close>.\<close>

fun input_links :: "deps \<Rightarrow> tx_input list \<Rightarrow> exn + string list" where
  "input_links c [] = Inr []"
| "input_links c (inp # rest) =
     (case fulfills inp of
        None \<Rightarrow> Inl AttributeError
      | Some link \<Rightarrow>
          (case input_links c rest of
             Inl e \<Rightarrow> Inl e
           | Inr links \<Rightarrow> Inr (to_uri c link # links)))"

text \<open>
  \<open>get_asset_id\<close>: the set of the transactions' asset ids, each hashed as it enters the
  set (TypeError for a list or a dict); more than one element raises AssetIdMismatch,
  and \<open>pop\<close> on the empty set raises KeyError. Of equal values the set keeps the first.
\<close>

fun asset_ids :: "transaction list \<Rightarrow> exn + json list" where
  "asset_ids [] = Inr []"
| "asset_ids (tx # rest) =
     (case (if operation tx = CREATE then Inr (hash_id tx) else getitem (asset tx) ''id'') of
        Inl e \<Rightarrow> Inl e
      | Inr a \<Rightarrow>
          if \<not> hashable a then Inl TypeError
          else (case asset_ids rest of
                  Inl e \<Rightarrow> Inl e
                | Inr ids \<Rightarrow> Inr (a # ids)))"

definition get_asset_id :: "transaction list \<Rightarrow> exn + json" where
  "get_asset_id transactions =
     (case asset_ids transactions of
        Inl e \<Rightarrow> Inl e
      | Inr ids \<Rightarrow>
          if 1 < length (remdups (map py_key ids)) then Inl AssetIdMismatch
          else (case ids of
                  [] \<Rightarrow> Inl KeyError
                | a # _ \<Rightarrow> Inr a))"

text \<open>The sums of amounts, as \<open>sum\<close> adds the integers up.\<close>

definition amounts :: "tx_output list \<Rightarrow> int" where
  "amounts conds = sum_list (map amount conds)"

text \<open>\<open>validate_transfer_inputs\<close>; it returns \<open>True\<close> or raises.\<close>

definition validate_transfer_inputs ::
  "deps \<Rightarrow> planetmint \<Rightarrow> transaction list \<Rightarrow> transaction \<Rightarrow> exn + bool" where
  "validate_transfer_inputs c planet current_transactions self =
     (case resolve_inputs planet current_transactions (inputs self) of
        Inl e \<Rightarrow> Inl e
      | Inr (input_conditions, input_txs) \<Rightarrow>
          (case input_links c (inputs self) of
             Inl e \<Rightarrow> Inl e
           | Inr links \<Rightarrow>
               if length links \<noteq> length (remdups links) then Inl DoubleSpend
               else (case get_asset_id input_txs of
                       Inl e \<Rightarrow> Inl e
                     | Inr asset_id \<Rightarrow>
                         (case getitem (asset self) ''id'' of
                            Inl e \<Rightarrow> Inl e
                          | Inr own_asset_id \<Rightarrow>
                              if py_key asset_id \<noteq> py_key own_asset_id then Inl AssetIdMismatch
                              else if amounts (outputs self) \<noteq> amounts input_conditions
                              then Inl AmountError
                              else (case inputs_valid c self (Some input_conditions) of
                                      Inl e \<Rightarrow> Inl e
                                    | Inr ok \<Rightarrow>
                                        if ok then Inr True else Inl InvalidSignature)))))"

subsection \<open>Construction and \<open>from_dict\<close>\<close>

text \<open>
  A class of the registry, as far as \<open>__init__\<close> depends on it: its
  \<open>ALLOWED_OPERATIONS\<close>. \<open>Transaction\<close> is the base class of \<open>transaction.py\<close>.
\<close>

record tx_class =
  class_name :: string
  ALLOWED_OPERATIONS :: "string list"

definition Transaction :: tx_class where
  "Transaction = \<lparr>class_name = ''Transaction'', ALLOWED_OPERATIONS = [CREATE, TRANSFER]\<rparr>"

text \<open>\<open>isinstance(x, dict) and k in x\<close>.\<close>

definition dict_with :: "json \<Rightarrow> string \<Rightarrow> bool" where
  "dict_with x k = (case x of JObj kvs \<Rightarrow> map_of kvs k \<noteq> None | _ \<Rightarrow> False)"

definition is_dict :: "json \<Rightarrow> bool" where
  "is_dict x = (case x of JObj kvs \<Rightarrow> True | _ \<Rightarrow> False)"

text \<open>
  \<open>__init__\<close>. \<open>inputs\<close> and \<open>outputs\<close> are lists by their type (\<open>None\<close> is the empty
  list, as \<open>inputs or []\<close> makes it), so the two list guards do not arise. An operation
  that is no string is in no tuple of strings.
\<close>

definition tx_init ::
  "tx_class \<Rightarrow> json \<Rightarrow> json \<Rightarrow> tx_input list \<Rightarrow> tx_output list \<Rightarrow> json \<Rightarrow> json \<Rightarrow> json \<Rightarrow>
   json option \<Rightarrow> exn + transaction" where
  "tx_init cls op asset_arg ins outs metadata_arg version_arg hash_id_arg tx_dict_arg =
     (case op of
        JStr operation_arg \<Rightarrow>
          if operation_arg \<notin> set (ALLOWED_OPERATIONS cls) then Inl ValueError
          else if operation_arg = CREATE \<and> asset_arg \<noteq> JNull \<and> \<not> dict_with asset_arg ''data''
          then Inl TypeError
          else if operation_arg = TRANSFER \<and> \<not> dict_with asset_arg ''id''
          then Inl TypeError
          else if metadata_arg \<noteq> JNull \<and> \<not> is_dict metadata_arg then Inl TypeError
          else Inr \<lparr>version = (if version_arg \<noteq> JNull then version_arg else JStr VERSION),
                    operation = operation_arg,
                    asset = asset_arg,
                    inputs = ins,
                    outputs = outs,
                    metadata = metadata_arg,
                    hash_id = hash_id_arg,
                    tx_dict = tx_dict_arg\<rparr>
      | _ \<Rightarrow> Inl ValueError)"

text \<open>
  \<open>resolve_class\<close>: \<open>type_registry.get(operation, create_txn_class)\<close>, where the default
  is \<open>type_registry.get(CREATE)\<close> (\<open>None\<close> when nothing is registered for CREATE). A
  list or a dict is no dict key (TypeError).
\<close>

definition resolve_class :: "(string \<rightharpoonup> tx_class) \<Rightarrow> json \<Rightarrow> exn + tx_class option" where
  "resolve_class type_registry op =
     (let create_txn_class = type_registry CREATE
      in case op of
           JStr s \<Rightarrow>
             Inr (case type_registry s of Some cls \<Rightarrow> Some cls | None \<Rightarrow> create_txn_class)
         | JList xs \<Rightarrow> Inl TypeError
         | JObj kvs \<Rightarrow> Inl TypeError
         | _ \<Rightarrow> Inr create_txn_class)"

text \<open>
  Iterating a value in a comprehension: a list gives its elements, a dict its keys, a
  string its characters; nothing else is iterable.
\<close>

definition py_iter :: "json \<Rightarrow> exn + json list" where
  "py_iter x =
     (case x of
        JList xs \<Rightarrow> Inr xs
      | JObj kvs \<Rightarrow> Inr (map (\<lambda>kv. JStr (fst kv)) kvs)
      | JStr s \<Rightarrow> Inr (map (\<lambda>ch. JStr [ch]) s)
      | _ \<Rightarrow> Inl TypeError)"

text \<open>A list comprehension whose element expression can raise.\<close>

fun comprehension :: "('a \<Rightarrow> exn + 'b) \<Rightarrow> 'a list \<Rightarrow> exn + 'b list" where
  "comprehension f [] = Inr []"
| "comprehension f (x # xs) =
     (case f x of
        Inl e \<Rightarrow> Inl e
      | Inr y \<Rightarrow>
          (case comprehension f xs of
             Inl e \<Rightarrow> Inl e
           | Inr ys \<Rightarrow> Inr (y # ys)))"

definition items_from_dict :: "(json \<Rightarrow> exn + 'b) \<Rightarrow> exn + json \<Rightarrow> exn + 'b list" where
  "items_from_dict f field =
     (case field of
        Inl e \<Rightarrow> Inl e
      | Inr x \<Rightarrow>
          (case py_iter x of
             Inl e \<Rightarrow> Inl e
           | Inr xs \<Rightarrow> comprehension f xs))"

text \<open>
  The body of \<open>from_dict\<close>. The class comes from the registry; with schema validation on,
  \<open>cls.validate_id(tx)\<close> runs first (\<open>validate_schema\<close> does nothing in the base class);
  then the inputs and outputs are converted, the constructor's arguments are read
  from the dict in the order of the call, and the class is called. Calling \<open>None\<close>
  raises TypeError, reading an attribute of \<open>None\<close> AttributeError.
\<close>

definition from_dict_body ::
  "deps \<Rightarrow> (string \<rightharpoonup> tx_class) \<Rightarrow> json \<Rightarrow> bool \<Rightarrow> exn + transaction" where
  "from_dict_body c type_registry tx skip_schema_validation =
     (let op = (case tx of
                  JObj kvs \<Rightarrow>
                    (case map_of kvs ''operation'' of Some v \<Rightarrow> v | None \<Rightarrow> JStr CREATE)
                | _ \<Rightarrow> JStr CREATE)
      in case resolve_class type_registry op of
           Inl e \<Rightarrow> Inl e
         | Inr cls \<Rightarrow>
             (case (if skip_schema_validation then Inr ()
                    else (case cls of
                            None \<Rightarrow> Inl AttributeError
                          | Some k \<Rightarrow> validate_id c tx)) of
                Inl e \<Rightarrow> Inl e
              | Inr u \<Rightarrow>
                  (case items_from_dict (input_from_dict c) (getitem tx ''inputs'') of
                     Inl e \<Rightarrow> Inl e
                   | Inr ins \<Rightarrow>
                  (case items_from_dict (output_from_dict c) (getitem tx ''outputs'') of
                     Inl e \<Rightarrow> Inl e
                   | Inr outs \<Rightarrow>
                  (case getitem tx ''operation'' of Inl e \<Rightarrow> Inl e | Inr operation_arg \<Rightarrow>
                  (case getitem tx ''asset'' of Inl e \<Rightarrow> Inl e | Inr asset_arg \<Rightarrow>
                  (case getitem tx ''metadata'' of Inl e \<Rightarrow> Inl e | Inr metadata_arg \<Rightarrow>
                  (case getitem tx ''version'' of Inl e \<Rightarrow> Inl e | Inr version_arg \<Rightarrow>
                  (case getitem tx ''id'' of Inl e \<Rightarrow> Inl e | Inr hash_id_arg \<Rightarrow>
                  (case cls of
                     None \<Rightarrow> Inl TypeError
                   | Some k \<Rightarrow>
                       tx_init k operation_arg asset_arg ins outs metadata_arg version_arg
                         hash_id_arg (Some tx)))))))))))"

text \<open>
  \<open>from_dict\<close>, as \<open>memoize_from_dict\<close> wraps it. Modelled from the spec: the module
  \<open>memoize.py\<close> is not part of the sources. The cache is keyed by the transaction's id
  (section 9), which is hexadecimal (section 6). The wrapper reads \<open>tx.get('id')\<close>
  (AttributeError on a value that is no dict); when the id is truthy it hashes the dict
  by decoding the id as hex (ValueError for a string that is not hex, TypeError for a
  value that is no string) and then runs the body.
\<close>

definition memoize_from_dict :: "(json \<Rightarrow> exn + 'a) \<Rightarrow> json \<Rightarrow> exn + 'a" where
  "memoize_from_dict func tx =
     (case tx of
        JObj kvs \<Rightarrow>
          (case map_of kvs ''id'' of
             None \<Rightarrow> func tx
           | Some i \<Rightarrow>
               if truthy i
               then (case i of
                       JStr s \<Rightarrow> if is_hex s then func tx else Inl ValueError
                     | _ \<Rightarrow> Inl TypeError)
               else func tx)
      | _ \<Rightarrow> Inl AttributeError)"

definition from_dict ::
  "deps \<Rightarrow> (string \<rightharpoonup> tx_class) \<Rightarrow> json \<Rightarrow> bool \<Rightarrow> exn + transaction" where
  "from_dict c type_registry tx skip_schema_validation =
     memoize_from_dict
       (\<lambda>tx. from_dict_body c type_registry tx skip_schema_validation) tx"

text \<open>
  Modelled from the spec: \<open>Output\<close> is not part of the sources. Amounts are positive
  integers, and overflow is detected and treated as AmountError (sections 4.5 and 7;
  section 8: amount 1 is valid, amount 0 is rejected). The largest amount is not in the
  specification and is a parameter.
\<close>

definition output_init :: "int \<Rightarrow> fulfillment \<Rightarrow> string list \<Rightarrow> int \<Rightarrow> exn + tx_output" where
  "output_init max_amount ffill keys n =
     (if n < 1 then Inl AmountError
      else if max_amount < n then Inl AmountError
      else Inr \<lparr>out_fulfillment = ffill, public_keys = keys, amount = n\<rparr>)"

section \<open>A symbolic instance of the collaborators\<close>

text \<open>
  The theorems below hold for every choice of the collaborators. To run the model on
  concrete transactions, this section fixes one choice: the codec and the wire forms as
  the specification describes them, and cryptography as in symbolic protocol models,
  where a hash or a signature is a term that names what was hashed or signed, so that
  different inputs never collide.
\<close>

text \<open>
  Modelled from the spec: \<open>serialize\<close> of \<open>planetmint.transactions.common.utils\<close> is
  not part of the sources. Section 4.1: object keys sorted by code point, no
  insignificant whitespace, numbers as they are. (Escaping inside strings is left out.)
\<close>

fun join :: "string \<Rightarrow> string list \<Rightarrow> string" where
  "join sep [] = []"
| "join sep [x] = x"
| "join sep (x # y # ys) = x @ sep @ join sep (y # ys)"

definition quoted :: "string \<Rightarrow> string" where
  "quoted s = CHR 0x22 # s @ [CHR 0x22]"

fun canonical_serialize :: "json \<Rightarrow> string" where
  "canonical_serialize JNull = ''null''"
| "canonical_serialize (JBool b) = (if b then ''true'' else ''false'')"
| "canonical_serialize (JInt i) = str_int i"
| "canonical_serialize (JStr s) = quoted s"
| "canonical_serialize (JList xs) = ''['' @ join '','' (map canonical_serialize xs) @ '']''"
| "canonical_serialize (JObj kvs) =
     ''{'' @ join '',''
        (map (\<lambda>(k, s). quoted k @ '':'' @ s)
           (sort_key fst (map (\<lambda>(k, v). (k, canonical_serialize v)) kvs))) @ ''}''"

text \<open>Symbolic hashing, key derivation and signing.\<close>

definition sym_hash :: "string \<Rightarrow> string" where
  "sym_hash s = ''sha3('' @ s @ '')''"

definition sym_public_key :: "string \<Rightarrow> string" where
  "sym_public_key private_key = ''pub.'' @ private_key"

definition sym_sign :: "string \<Rightarrow> string \<Rightarrow> string" where
  "sym_sign digest private_key = ''sig('' @ digest @ '','' @ private_key @ '')''"

text \<open>
  A signed Ed25519 leaf has the URI \<open>public_key:signature\<close>; an unsigned leaf cannot be
  encoded, and this instance encodes leaves only. A URI without a colon does not parse.
\<close>

fun sym_serialize_uri :: "fulfillment \<Rightarrow> lib_exn + string" where
  "sym_serialize_uri (Ed25519Sha256 pk (Some sg)) = Inr (pk @ '':'' @ sg)"
| "sym_serialize_uri (Ed25519Sha256 pk None) = Inl Lib_TypeError"
| "sym_serialize_uri f = Inl Lib_ValueError"

definition sym_from_uri :: "string \<Rightarrow> lib_exn + fulfillment" where
  "sym_from_uri uri =
     (if CHR '':'' \<in> set uri
      then Inr (Ed25519Sha256 (takeWhile (\<lambda>ch. ch \<noteq> CHR '':'') uri)
                  (Some (tl (dropWhile (\<lambda>ch. ch \<noteq> CHR '':'') uri))))
      else Inl Lib_ParsingError)"

text \<open>
  A leaf validates when its signature is the one its key's owner produces for the
  digest; a threshold node when enough subconditions validate.
\<close>

fun sym_validate :: "fulfillment \<Rightarrow> string \<Rightarrow> bool" where
  "sym_validate (Ed25519Sha256 pk sg) digest = (sg = Some (sym_sign digest (drop 4 pk)))"
| "sym_validate (ThresholdSha256 t subs) digest =
     (t \<le> length (filter (\<lambda>sub. sym_validate sub digest) subs))"
| "sym_validate (OtherFulfillment x) digest = False"

fun sym_condition_uri :: "fulfillment \<Rightarrow> string" where
  "sym_condition_uri (Ed25519Sha256 pk sg) = ''cond:'' @ pk"
| "sym_condition_uri (ThresholdSha256 t subs) =
     ''cond:'' @ str_int (int t) @ ''['' @ join '','' (map sym_condition_uri subs) @ '']''"
| "sym_condition_uri (OtherFulfillment x) = ''cond:'' @ x"

text \<open>
  Modelled from the spec: \<open>TransactionLink\<close>, \<open>Input\<close> and \<open>Output\<close> are not part of the
  sources. Section 3 gives the link's string form \<open><txid>:<output_index>\<close>; section 6
  gives the wire form of an input and of an output. A signed leaf is carried by its
  URI and an unsigned leaf, which has no URI, by its details; this instance converts
  Ed25519 leaves only. An output is built by \<open>output_init\<close>, with \<open>sym_max_amount\<close> as the
  largest amount.
\<close>

definition sym_to_uri :: "transaction_link \<Rightarrow> string" where
  "sym_to_uri link = txid link @ '':'' @ str_int (output_index link)"

definition ed25519_details :: "string \<Rightarrow> json" where
  "ed25519_details pk = JObj [(''type'', JStr ''ed25519-sha-256''), (''public_key'', JStr pk)]"

definition wire_fulfillment :: "fulfillment option \<Rightarrow> json" where
  "wire_fulfillment f =
     (case f of
        None \<Rightarrow> JNull
      | Some (Ed25519Sha256 pk (Some sg)) \<Rightarrow> JStr (pk @ '':'' @ sg)
      | Some (Ed25519Sha256 pk None) \<Rightarrow> ed25519_details pk
      | Some other \<Rightarrow> JNull)"

definition wire_input :: "tx_input \<Rightarrow> json" where
  "wire_input inp =
     JObj [(''owners_before'', JList (map JStr (owners_before inp))),
           (''fulfills'',
              (case fulfills inp of
                 None \<Rightarrow> JNull
               | Some link \<Rightarrow>
                   JObj [(''transaction_id'', JStr (txid link)),
                         (''output_index'', JInt (output_index link))])),
           (''fulfillment'', wire_fulfillment (fulfillment inp))]"

definition wire_output :: "tx_output \<Rightarrow> json" where
  "wire_output out =
     JObj [(''amount'', JStr (str_int (amount out))),
           (''public_keys'', JList (map JStr (public_keys out))),
           (''condition'',
              JObj [(''uri'', JStr (sym_condition_uri (out_fulfillment out))),
                    (''details'',
                       (case out_fulfillment out of
                          Ed25519Sha256 pk sg \<Rightarrow> ed25519_details pk
                        | other \<Rightarrow> JNull))])]"

definition strings_of :: "json \<Rightarrow> exn + string list" where
  "strings_of x =
     (case x of
        JList xs \<Rightarrow>
          comprehension (\<lambda>y. case y of JStr s \<Rightarrow> Inr s | _ \<Rightarrow> Inl TypeError) xs
      | _ \<Rightarrow> Inl TypeError)"

definition parse_fulfillment :: "json \<Rightarrow> exn + fulfillment option" where
  "parse_fulfillment x =
     (case x of
        JNull \<Rightarrow> Inr None
      | JStr uri \<Rightarrow>
          (case sym_from_uri uri of
             Inl e \<Rightarrow> Inl InvalidSignature
           | Inr f \<Rightarrow> Inr (Some f))
      | JObj kvs \<Rightarrow>
          (case map_of kvs ''public_key'' of
             Some (JStr pk) \<Rightarrow> Inr (Some (Ed25519Sha256 pk None))
           | _ \<Rightarrow> Inl KeyError)
      | _ \<Rightarrow> Inl TypeError)"

definition parse_link :: "json \<Rightarrow> exn + transaction_link option" where
  "parse_link x =
     (case x of
        JNull \<Rightarrow> Inr None
      | JObj kvs \<Rightarrow>
          (case (map_of kvs ''transaction_id'', map_of kvs ''output_index'') of
             (Some (JStr t), Some (JInt i)) \<Rightarrow> Inr (Some \<lparr>txid = t, output_index = i\<rparr>)
           | _ \<Rightarrow> Inl KeyError)
      | _ \<Rightarrow> Inl TypeError)"

definition parse_input :: "json \<Rightarrow> exn + tx_input" where
  "parse_input x =
     (case getitem x ''fulfillment'' of Inl e \<Rightarrow> Inl e | Inr f \<Rightarrow>
     (case parse_fulfillment f of Inl e \<Rightarrow> Inl e | Inr ffill \<Rightarrow>
     (case getitem x ''fulfills'' of Inl e \<Rightarrow> Inl e | Inr l \<Rightarrow>
     (case parse_link l of Inl e \<Rightarrow> Inl e | Inr link \<Rightarrow>
     (case getitem x ''owners_before'' of Inl e \<Rightarrow> Inl e | Inr os \<Rightarrow>
     (case strings_of os of Inl e \<Rightarrow> Inl e | Inr owners \<Rightarrow>
        Inr \<lparr>fulfillment = ffill, owners_before = owners, fulfills = link\<rparr>))))))"

definition digit_value :: "char \<Rightarrow> int" where
  "digit_value ch = int (length (takeWhile (\<lambda>d. d \<noteq> ch) ''0123456789''))"

definition parse_amount :: "json \<Rightarrow> exn + int" where
  "parse_amount x =
     (case x of
        JStr s \<Rightarrow>
          if s \<noteq> [] \<and> list_all (\<lambda>ch. digit_value ch < 10) s
          then Inr (fold (\<lambda>ch n. 10 * n + digit_value ch) s 0)
          else Inl AmountError
      | _ \<Rightarrow> Inl TypeError)"

definition sym_max_amount :: int where
  "sym_max_amount = 9 * 10 ^ 18"

definition parse_output :: "json \<Rightarrow> exn + tx_output" where
  "parse_output x =
     (case getitem x ''condition'' of Inl e \<Rightarrow> Inl e | Inr cond \<Rightarrow>
     (case getitem cond ''details'' of Inl e \<Rightarrow> Inl e | Inr details \<Rightarrow>
     (case parse_fulfillment details of Inl e \<Rightarrow> Inl e | Inr ffill \<Rightarrow>
     (case ffill of None \<Rightarrow> Inl TypeError | Some f \<Rightarrow>
     (case getitem x ''public_keys'' of Inl e \<Rightarrow> Inl e | Inr ks \<Rightarrow>
     (case strings_of ks of Inl e \<Rightarrow> Inl e | Inr keys \<Rightarrow>
     (case getitem x ''amount'' of Inl e \<Rightarrow> Inl e | Inr a \<Rightarrow>
     (case parse_amount a of Inl e \<Rightarrow> Inl e | Inr n \<Rightarrow>
        output_init sym_max_amount f keys n))))))))"

text \<open>
  An input without a fulfillment has no dict form, and neither has an input whose
  fulfillment is no Ed25519 leaf; the other conversions return.
\<close>

definition sym_input_to_dict_raises :: "tx_input \<Rightarrow> lib_exn option" where
  "sym_input_to_dict_raises inp =
     (case fulfillment inp of
        None \<Rightarrow> Some Lib_AttributeError
      | Some (Ed25519Sha256 pk sg) \<Rightarrow> None
      | Some other \<Rightarrow> Some Lib_ValueError)"

definition symbolic :: deps where
  "symbolic =
     \<lparr>serialize = canonical_serialize,
      hash_data = sym_hash,
      sha3_256 = sym_hash,
      input_to_dict = wire_input,
      output_to_dict = wire_output,
      input_to_dict_raises = sym_input_to_dict_raises,
      output_to_dict_raises = (\<lambda>out. None),
      input_from_dict = parse_input,
      output_from_dict = parse_output,
      gen_public_key = sym_public_key,
      b58decode = (\<lambda>s. s),
      ed25519_sign = sym_sign,
      serialize_uri = sym_serialize_uri,
      from_uri = sym_from_uri,
      validate = sym_validate,
      condition_uri = sym_condition_uri,
      to_uri = sym_to_uri\<rparr>"

section \<open>Concrete transactions\<close>

text \<open>
  The identifier the specification describes (sections 3 and 4.1), in its words: the
  hash of the canonical serialization of the dict with \<open>id\<close> set to null and every
  \<open>fulfillment\<close> set to null.
\<close>

definition strip_id_and_fulfillments :: "json \<Rightarrow> exn + json" where
  "strip_id_and_fulfillments tx =
     (case remove_signatures tx of
        Inl e \<Rightarrow> Inl e
      | Inr tx' \<Rightarrow> setitem tx' ''id'' JNull)"

definition claimed_id :: "deps \<Rightarrow> json \<Rightarrow> exn + json" where
  "claimed_id c tx =
     (case strip_id_and_fulfillments tx of
        Inl e \<Rightarrow> Inl e
      | Inr body \<Rightarrow> Inr (JStr (hash_data c (serialize c body))))"

text \<open>
  A CREATE transaction with one unsigned input and one output, both owned by the key
  \<open>pub.alice\<close> of the private key \<open>alice\<close>, and variants of it.
\<close>

definition alice_input :: tx_input where
  "alice_input =
     \<lparr>fulfillment = Some (Ed25519Sha256 ''pub.alice'' None),
      owners_before = [''pub.alice''], fulfills = None\<rparr>"

definition bob_input :: tx_input where
  "bob_input =
     \<lparr>fulfillment = Some (Ed25519Sha256 ''pub.bob'' None),
      owners_before = [''pub.bob''], fulfills = None\<rparr>"

definition alice_output :: tx_output where
  "alice_output =
     \<lparr>out_fulfillment = Ed25519Sha256 ''pub.alice'' None,
      public_keys = [''pub.alice''], amount = 1\<rparr>"

definition create_tx :: transaction where
  "create_tx =
     \<lparr>version = JStr VERSION, operation = CREATE, asset = JObj [(''data'', JNull)],
      inputs = [alice_input], outputs = [alice_output], metadata = JNull,
      hash_id = JNull, tx_dict = None\<rparr>"

definition presigned_tx :: transaction where
  "presigned_tx =
     create_tx\<lparr>inputs :=
       [alice_input\<lparr>fulfillment := Some (Ed25519Sha256 ''pub.alice'' (Some ''signature''))\<rparr>]\<rparr>"

text \<open>
  The unsigned transaction as a TRANSFER, and with an input that has no fulfillment
  before the unsigned one. An unsigned fulfillment has no URI: serializing it raises
  TypeError.
\<close>

definition unsigned_transfer_tx :: transaction where
  "unsigned_transfer_tx =
     create_tx\<lparr>operation := TRANSFER, asset := JObj [(''id'', JStr ''tx0'')]\<rparr>"

definition no_fulfillment_tx :: transaction where
  "no_fulfillment_tx = create_tx\<lparr>inputs := [alice_input\<lparr>fulfillment := None\<rparr>, alice_input]\<rparr>"

text \<open>A registry that knows the base class only, and a dict of an operation it lacks.\<close>

definition base_registry :: "string \<rightharpoonup> tx_class" where
  "base_registry = [CREATE \<mapsto> Transaction, TRANSFER \<mapsto> Transaction]"

definition vote_dict :: json where
  "vote_dict =
     JObj [(''inputs'', JList []), (''outputs'', JList []), (''operation'', JStr ''VOTE''),
           (''metadata'', JNull), (''asset'', JNull), (''version'', JStr VERSION),
           (''id'', JNull)]"

text \<open>Two inputs with different owners, for signing with one owner's key only.\<close>

definition two_owner_tx :: transaction where
  "two_owner_tx = create_tx\<lparr>inputs := [alice_input, bob_input]\<rparr>"

definition partly_signed :: transaction where
  "partly_signed = snd (sign symbolic [''alice''] two_owner_tx)"

text \<open>The transaction after one signing and after a second one with the same key.\<close>

definition signed_once :: transaction where
  "signed_once = snd (sign symbolic [''alice''] create_tx)"

definition signed_twice :: transaction where
  "signed_twice = snd (sign symbolic [''alice''] signed_once)"

text \<open>
  A store that holds one transaction, \<open>tx0\<close>, with two unspent outputs of 60 and 40,
  and TRANSFER transactions that spend them: both outputs into one output of 100, the
  first output twice, outputs of a transaction the store does not have, and both
  outputs into outputs of 60 and 50.
\<close>

definition prior_tx :: transaction where
  "prior_tx =
     create_tx\<lparr>outputs := [alice_output\<lparr>amount := 60\<rparr>, alice_output\<lparr>amount := 40\<rparr>],
               hash_id := JStr ''tx0''\<rparr>"

definition store :: planetmint where
  "store =
     \<lparr>get_transaction = (\<lambda>i. if i = ''tx0'' then Some prior_tx else None),
      get_spent = (\<lambda>i n cur. False)\<rparr>"

definition transfer_input :: "string \<Rightarrow> int \<Rightarrow> tx_input" where
  "transfer_input i n =
     \<lparr>fulfillment = Some (Ed25519Sha256 ''pub.alice'' None), owners_before = [''pub.alice''],
      fulfills = Some \<lparr>txid = i, output_index = n\<rparr>\<rparr>"

definition transfer_tx :: transaction where
  "transfer_tx =
     \<lparr>version = JStr VERSION, operation = TRANSFER, asset = JObj [(''id'', JStr ''tx0'')],
      inputs = [transfer_input ''tx0'' 0, transfer_input ''tx0'' 1],
      outputs = [alice_output\<lparr>amount := 100\<rparr>], metadata = JNull,
      hash_id = JNull, tx_dict = None\<rparr>"

definition double_link_tx :: transaction where
  "double_link_tx = transfer_tx\<lparr>inputs := [transfer_input ''tx0'' 0, transfer_input ''tx0'' 0]\<rparr>"

definition dangling_tx :: transaction where
  "dangling_tx = transfer_tx\<lparr>inputs := [transfer_input ''gone'' 0, transfer_input ''gone'' 0]\<rparr>"

definition overspend_tx :: transaction where
  "overspend_tx =
     transfer_tx\<lparr>outputs := [alice_output\<lparr>amount := 60\<rparr>, alice_output\<lparr>amount := 50\<rparr>]\<rparr>"

text \<open>
  The keys of a transaction dict, and a dict in the wire form of section 6 of the
  specification, its keys in another order than \<open>to_dict\<close> writes them.
\<close>

definition tx_keys :: "string set" where
  "tx_keys = {''inputs'', ''outputs'', ''operation'', ''metadata'', ''asset'', ''version'', ''id''}"

definition wire_items :: "(string \<times> json) list" where
  "wire_items =
     [(''id'', JStr ''4f2a9c0e7b1d8a3650c4e9f1b2d7a8c3e6f5041928b7c6d5e4f3a2b1c0d9e8f7''),
      (''version'', JStr VERSION),
      (''operation'', JStr CREATE),
      (''asset'', JObj [(''data'', JNull)]),
      (''metadata'', JNull),
      (''outputs'', JList [wire_output alice_output]),
      (''inputs'', JList [wire_input
         (alice_input\<lparr>fulfillment := Some (Ed25519Sha256 ''pub.alice'' (Some ''signature''))\<rparr>)])]"

section \<open>The store: what the queries return\<close>

text \<open>
  C4. On the blocks of heights 1 and 2, \<open>latest_block\<close> returns the block of height 1
  (the ascending sort's first element), with the height in the \<open>app_hash\<close> field, and not
  the block of maximal height with its stored app_hash.
\<close>

theorem latest_block_returns_lowest:
  "latest_block two_blocks =
     Inr (JObj [(''app_hash'', JInt 1), (''height'', JInt 1),
                (''transactions'', JList [JStr ''tx_a''])])
   \<and> latest_block two_blocks \<noteq>
     Inr (JObj [(''app_hash'', JStr ''hash_two''), (''height'', JInt 2),
                (''transactions'', JList [JStr ''tx_b''])])"
  by (simp add: latest_block_def two_blocks_def itemgetter1_def)

text \<open>
  C5. On the validator sets stored at heights 1 and 5, \<open>get_validator_set\<close> with
  height 7 returns the record of height 1, not the record of height 5 (the greatest
  stored height at or below 7); with no height it returns the record of height 1 as well.
\<close>

theorem get_validator_set_returns_lowest:
  "get_validator_set two_blocks (Some 7) = Some (''v_one'', 1, JList [JStr ''old''])
   \<and> get_validator_set two_blocks None = Some (''v_one'', 1, JList [JStr ''old''])"
  by (simp add: get_validator_set_def two_blocks_def itemgetter1_def next_iter_def)

section \<open>The transaction identifier\<close>

text \<open>
  C1, as the code has it. \<open>validate_id\<close> accepts a dict exactly when its \<open>id\<close> is the
  hash of the serialization of the dict with \<open>id\<close> set to null, the fulfillments left
  as they are, and raises InvalidHash otherwise (also when there is no \<open>id\<close>). The id
  \<open>_hash\<close> gives a transaction that had none is accepted.
\<close>

theorem validate_id_recomputes:
  "validate_id c (JObj kvs) =
     (if map_of kvs ''id'' =
         Some (JStr (hash_data c (serialize c (JObj (AList.update ''id'' JNull kvs)))))
      then Inr () else Inl InvalidHash)
   \<and> (hash_id t = JNull \<longrightarrow> validate_id c (to_dict c (tx_hash c t)) = Inr ())"
  by (auto simp: validate_id_def Let_def to_dict_def tx_hash_def serialized_def
      split: option.splits)

theorem validate_id_recomputes_witness:
  "hash_id presigned_tx = JNull
   \<and> validate_id symbolic (to_dict symbolic (tx_hash symbolic presigned_tx)) = Inr ()"
  using validate_id_recomputes [of symbolic "[]" presigned_tx]
  by (simp add: presigned_tx_def create_tx_def)

text \<open>
  C1 as stated fails: the dict of a transaction with a signed input, with the id
  \<open>_hash\<close> computes, is accepted by \<open>validate_id\<close>, and its id is not the hash of the
  dict with the fulfillments set to null.
\<close>

theorem id_covers_fulfillments_counterexample:
  "validate_id symbolic (to_dict symbolic (tx_hash symbolic presigned_tx)) = Inr ()
   \<and> \<not> isl (claimed_id symbolic (to_dict symbolic (tx_hash symbolic presigned_tx)))
   \<and> claimed_id symbolic (to_dict symbolic (tx_hash symbolic presigned_tx))
       \<noteq> getitem (to_dict symbolic (tx_hash symbolic presigned_tx)) ''id''"
  by code_simp

section \<open>Operations outside CREATE and TRANSFER\<close>

text \<open>
  C9. For an operation string other than CREATE and TRANSFER the base class's
  constructor raises ValueError; \<open>resolve_class\<close> maps an operation that is not
  registered to the class registered for CREATE; and when that class is the base
  class, \<open>from_dict\<close> of a dict with such an operation raises instead of returning a
  transaction.
\<close>

theorem unknown_operation_rejected:
  assumes "op \<noteq> CREATE" and "op \<noteq> TRANSFER"
  shows "tx_init Transaction (JStr op) a ins outs m v h d = Inl ValueError
     \<and> (type_registry op = None \<longrightarrow>
          resolve_class type_registry (JStr op) = Inr (type_registry CREATE))
     \<and> (type_registry op = None \<and> type_registry CREATE = Some Transaction
          \<and> map_of kvs ''operation'' = Some (JStr op) \<longrightarrow>
          isl (from_dict c type_registry (JObj kvs) skip))"
proof -
  have init: "\<And>a ins outs m v h d.
      tx_init Transaction (JStr op) a ins outs m v h d = Inl ValueError"
    using assms by (simp add: tx_init_def Transaction_def)
  have res: "type_registry op = None \<Longrightarrow>
      resolve_class type_registry (JStr op) = Inr (type_registry CREATE)"
    by (simp add: resolve_class_def)
  have body: "isl (from_dict_body c type_registry (JObj kvs) skip)"
    if "type_registry op = None" "type_registry CREATE = Some Transaction"
       "map_of kvs ''operation'' = Some (JStr op)"
    using that init
    by (simp add: from_dict_body_def resolve_class_def getitem_def
        split: sum.splits option.splits)
  have fd: "isl (from_dict c type_registry (JObj kvs) skip)"
    if "type_registry op = None" "type_registry CREATE = Some Transaction"
       "map_of kvs ''operation'' = Some (JStr op)"
    using body [OF that]
    by (auto simp: from_dict_def memoize_from_dict_def split: option.splits json.splits)
  show ?thesis using init res fd by blast
qed

theorem unknown_operation_rejected_witness:
  "''VOTE'' \<noteq> CREATE \<and> ''VOTE'' \<noteq> TRANSFER
   \<and> tx_init Transaction (JStr ''VOTE'') JNull [] [] JNull JNull JNull None = Inl ValueError
   \<and> base_registry ''VOTE'' = None
   \<and> resolve_class base_registry (JStr ''VOTE'') = Inr (Some Transaction)
   \<and> from_dict symbolic base_registry vote_dict True = Inl ValueError"
proof -
  have a: "''VOTE'' \<noteq> CREATE" and b: "''VOTE'' \<noteq> TRANSFER"
    by (simp_all add: CREATE_def TRANSFER_def)
  have r: "base_registry ''VOTE'' = None" "base_registry CREATE = Some Transaction"
    by (simp_all add: base_registry_def CREATE_def TRANSFER_def)
  have f: "from_dict symbolic base_registry vote_dict True = Inl ValueError"
    by (simp add: from_dict_def memoize_from_dict_def from_dict_body_def vote_dict_def
        resolve_class_def base_registry_def CREATE_def TRANSFER_def getitem_def
        items_from_dict_def py_iter_def tx_init_def Transaction_def)
  show ?thesis
    using unknown_operation_rejected [OF a b, of JNull "[]" "[]" JNull JNull JNull None
        base_registry "[]" symbolic True] a b r f
    by simp
qed

section \<open>Inputs whose fulfillment does not parse\<close>

lemma all_valid_first_False:
  assumes "k < length ins" and "length conds = length ins"
    and "v (ins ! k) (conds ! k) = Inr False"
    and "\<forall>j<k. \<exists>b. v (ins ! j) (conds ! j) = Inr b"
  shows "all_valid v ins conds = Inr False"
  using assms
proof (induction v ins conds arbitrary: k rule: all_valid.induct)
  case (1 v ins)
  then show ?case by simp
next
  case (2 v cond conds)
  then show ?case by simp
next
  case (3 v inp rest cond conds)
  show ?case
  proof (cases k)
    case 0
    then show ?thesis using "3.prems" by simp
  next
    case (Suc n)
    from "3.prems"(4) Suc obtain b where b: "v inp cond = Inr b" by fastforce
    show ?thesis
    proof (cases b)
      case False
      then show ?thesis using b by simp
    next
      case True
      have "all_valid v rest conds = Inr False"
      proof (rule "3.IH" [OF b True, of n])
        show "n < length rest" using "3.prems"(1) Suc by simp
        show "length conds = length rest" using "3.prems"(2) by simp
        show "v (rest ! n) (conds ! n) = Inr False" using "3.prems"(3) Suc by simp
        show "\<forall>j<n. \<exists>b. v (rest ! j) (conds ! j) = Inr b"
          using "3.prems"(4) Suc by fastforce
      qed
      then show ?thesis using b True by simp
    qed
  qed
qed

lemma remove_signatures_dict:
  "remove_signatures tx = Inr tx' \<Longrightarrow> \<exists>kvs. tx' = JObj kvs"
  by (cases tx)
    (auto simp: remove_signatures_def getitem_def setitem_def
      split: json.splits option.splits sum.splits list.splits)

text \<open>
  C10, as the code has it. When serializing and re-parsing an input's fulfillment
  raises one of the exceptions the \<open>except\<close> clause names, \<open>_input_valid\<close> returns
  \<open>False\<close>. \<open>inputs_valid\<close> returns \<open>False\<close> for the transaction when it comes to that
  input: the operation is CREATE, or it is TRANSFER and as many outputs as inputs are
  passed; the dict to work on is there and its signatures can be removed; the id can be
  hashed; and no earlier input raises.
\<close>

theorem unparsable_fulfillment_is_invalid:
  assumes bad: "fulfillment inp = Some ccffill" "reparse c ccffill = Inl e" "caught e"
  shows "input_valid c inp op message uri = Inr False
     \<and> (k < length (inputs self) \<and> inputs self ! k = inp
        \<and> (\<forall>j<k. \<forall>m u. \<exists>b. input_valid c (inputs self ! j) (operation self) m u = Inr b)
        \<and> hashable (hash_id self)
        \<and> dict_for_validation c self = Inr d \<and> remove_signatures d = Inr d'
        \<and> (operation self = CREATE
            \<or> operation self = TRANSFER \<and> outs = Some os \<and> length os = length (inputs self))
        \<longrightarrow> inputs_valid c self outs = Inr False)"
proof -
  have one: "\<And>op message uri. input_valid c inp op message uri = Inr False"
    using bad by (simp add: input_valid_def)
  have uris: "inputs_valid_uris c self conds = Inr False"
    if k: "k < length (inputs self)" "inputs self ! k = inp"
      and before: "\<forall>j<k. \<forall>m u. \<exists>b. input_valid c (inputs self ! j) (operation self) m u = Inr b"
      and h: "hashable (hash_id self)"
      and d: "dict_for_validation c self = Inr d" and d': "remove_signatures d = Inr d'"
      and len: "length conds = length (inputs self)"
    for conds
  proof -
    obtain kvs where kvs: "d' = JObj kvs"
      using remove_signatures_dict [OF d'] by blast
    have "all_valid (\<lambda>inp cond. call_input_valid c self inp (operation self)
              (serialize c (JObj (AList.update ''id'' JNull kvs))) cond)
            (inputs self) conds = Inr False"
      by (rule all_valid_first_False [of k])
        (use k before len one h in \<open>auto simp: call_input_valid_def\<close>)
    then show ?thesis
      using d d' kvs len by (simp add: inputs_valid_uris_def setitem_def)
  qed
  show ?thesis
    using one uris by (auto simp: inputs_valid_def)
qed

theorem unparsable_fulfillment_is_invalid_witness:
  "fulfillment alice_input = Some (Ed25519Sha256 ''pub.alice'' None)
   \<and> reparse symbolic (Ed25519Sha256 ''pub.alice'' None) = Inl Lib_TypeError
   \<and> caught Lib_TypeError
   \<and> input_valid symbolic alice_input CREATE ''message'' ''uri'' = Inr False
   \<and> operation create_tx = CREATE
   \<and> inputs create_tx = [alice_input]
   \<and> hashable (hash_id create_tx)
   \<and> \<not> isl (dict_for_validation symbolic create_tx)
   \<and> inputs_valid symbolic create_tx None = Inr False"
proof -
  have a: "fulfillment alice_input = Some (Ed25519Sha256 ''pub.alice'' None)"
    by (simp add: alice_input_def)
  have b: "reparse symbolic (Ed25519Sha256 ''pub.alice'' None) = Inl Lib_TypeError"
    by (simp add: reparse_def symbolic_def)
  have d: "caught Lib_TypeError" by simp
  have op: "operation create_tx = CREATE" "inputs create_tx = [alice_input]"
    "hashable (hash_id create_tx)"
    by (simp_all add: create_tx_def hashable_def)
  have dv: "dict_for_validation symbolic create_tx = Inr (to_dict symbolic create_tx)"
    by (simp add: dict_for_validation_def call_to_dict_def to_dict_raises_def
        create_tx_def symbolic_def sym_input_to_dict_raises_def alice_input_def)
  obtain d' where rs: "remove_signatures (to_dict symbolic create_tx) = Inr d'"
    by (simp add: create_tx_def to_dict_def remove_signatures_def getitem_def
        setitem_def symbolic_def wire_input_def alice_input_def)
  show ?thesis
    using unparsable_fulfillment_is_invalid [OF a b d, of CREATE "''message''" "''uri''" 0
        create_tx "to_dict symbolic create_tx" d' None "[]"] a b d dv rs op
    by simp
qed

text \<open>
  C10 as stated fails: with an input whose fulfillment cannot be serialized (TypeError),
  \<open>inputs_valid\<close> raises ValueError when the number of outputs passed is not the number
  of inputs, TypeError when a TRANSFER is given no outputs, and AttributeError when an
  earlier input has no fulfillment.
\<close>

theorem unparsable_input_raises_counterexample:
  "reparse symbolic (Ed25519Sha256 ''pub.alice'' None) = Inl Lib_TypeError
   \<and> caught Lib_TypeError
   \<and> map fulfillment (inputs unsigned_transfer_tx) = [Some (Ed25519Sha256 ''pub.alice'' None)]
   \<and> inputs_valid symbolic unsigned_transfer_tx (Some []) = Inl ValueError
   \<and> inputs_valid symbolic unsigned_transfer_tx None = Inl TypeError
   \<and> map fulfillment (inputs no_fulfillment_tx)
       = [None, Some (Ed25519Sha256 ''pub.alice'' None)]
   \<and> inputs_valid symbolic no_fulfillment_tx None = Inl AttributeError"
  by code_simp

section \<open>Signing that fails\<close>

lemma sign_inputs_failure:
  "sign_inputs c m kp ins = (Some e, ins') \<Longrightarrow>
   \<exists>k<length ins. sign_input c (ins ! k) m kp = Inl e \<and> length ins' = length ins
      \<and> drop k ins' = drop k ins
      \<and> (\<forall>i<k. sign_input c (ins ! i) m kp = Inr (ins' ! i))"
proof (induction ins arbitrary: ins')
  case Nil
  then show ?case by simp
next
  case (Cons inp rest)
  show ?case
  proof (cases "sign_input c inp m kp")
    case (Inl e')
    with Cons.prems have "e' = e" "ins' = inp # rest" by simp_all
    with Inl show ?thesis by (intro exI [of _ 0]) simp
  next
    case (Inr signed)
    obtain r rest' where rec: "sign_inputs c m kp rest = (r, rest')"
      by (cases "sign_inputs c m kp rest")
    with Inr Cons.prems have r: "r = Some e" and ins': "ins' = signed # rest'" by simp_all
    from Cons.IH [of rest'] rec r obtain k where k: "k < length rest"
      "sign_input c (rest ! k) m kp = Inl e" "length rest' = length rest"
      "drop k rest' = drop k rest" "\<forall>i<k. sign_input c (rest ! i) m kp = Inr (rest' ! i)"
      by blast
    have "\<forall>i<Suc k. sign_input c ((inp # rest) ! i) m kp = Inr ((signed # rest') ! i)"
      using k(5) Inr by (auto simp: less_Suc_eq_0_disj)
    with k ins' show ?thesis by (intro exI [of _ "Suc k"]) simp
  qed
qed

lemma sign_inputs_success:
  "sign_inputs c m kp ins = (None, ins') \<Longrightarrow>
   length ins' = length ins \<and> (\<forall>i<length ins. sign_input c (ins ! i) m kp = Inr (ins' ! i))"
proof (induction ins arbitrary: ins')
  case Nil
  then show ?case by simp
next
  case (Cons inp rest)
  from Cons.prems obtain signed where signed: "sign_input c inp m kp = Inr signed"
    by (cases "sign_input c inp m kp") auto
  obtain r rest' where rec: "sign_inputs c m kp rest = (r, rest')"
    by (cases "sign_inputs c m kp rest")
  with signed Cons.prems have r: "r = None" and ins': "ins' = signed # rest'" by simp_all
  from Cons.IH [of rest'] rec r have ih: "length rest' = length rest"
    "\<forall>i<length rest. sign_input c (rest ! i) m kp = Inr (rest' ! i)"
    by simp_all
  have "\<forall>i<Suc (length rest). sign_input c ((inp # rest) ! i) m kp = Inr ((signed # rest') ! i)"
    using ih(2) signed by (auto simp: less_Suc_eq_0_disj)
  with ih(1) ins' show ?case by simp
qed

text \<open>
  C2, as the code has it. When \<open>sign\<close> raises, every attribute of the transaction but
  \<open>inputs\<close> is as before (the id is not recomputed), and one of three things has
  happened. The call raised before the loop, and the transaction is unchanged. Or
  signing raised at input \<open>k\<close>: each input before \<open>k\<close> has been replaced by its signed
  copy, and input \<open>k\<close> and all later inputs are as before. Or \<open>_hash\<close> raised after the
  loop, and every input has been replaced by its signed copy.
\<close>

theorem sign_failure_state:
  assumes "sign c private_keys self = (Some e, self')"
  shows "self'\<lparr>inputs := inputs self\<rparr> = self
     \<and> (signing_message c self = Inl e \<and> self' = self
        \<or> (\<exists>m k. signing_message c self = Inr m \<and> k < length (inputs self)
              \<and> sign_input c (inputs self ! k) m (key_pairs_of c private_keys) = Inl e
              \<and> length (inputs self') = length (inputs self)
              \<and> drop k (inputs self') = drop k (inputs self)
              \<and> (\<forall>i<k. sign_input c (inputs self ! i) m (key_pairs_of c private_keys)
                          = Inr (inputs self' ! i)))
        \<or> (\<exists>m. signing_message c self = Inr m \<and> call_hash c self' = Inl e
              \<and> length (inputs self') = length (inputs self)
              \<and> (\<forall>i<length (inputs self).
                     sign_input c (inputs self ! i) m (key_pairs_of c private_keys)
                       = Inr (inputs self' ! i))))"
proof (cases "signing_message c self")
  case (Inl e')
  with assms have "self' = self" "e' = e" by (simp_all add: sign_def)
  with Inl show ?thesis by simp
next
  case (Inr m)
  obtain r ins where loop: "sign_inputs c m (key_pairs_of c private_keys) (inputs self) = (r, ins)"
    by (cases "sign_inputs c m (key_pairs_of c private_keys) (inputs self)")
  show ?thesis
  proof (cases r)
    case (Some e')
    with Inr loop assms have e': "e' = e" and self': "self' = self\<lparr>inputs := ins\<rparr>"
      by (simp_all add: sign_def)
    from sign_inputs_failure [of c m "key_pairs_of c private_keys" "inputs self" e ins]
      loop Some e'
    obtain k where k: "k < length (inputs self)"
      "sign_input c (inputs self ! k) m (key_pairs_of c private_keys) = Inl e"
      "length ins = length (inputs self)" "drop k ins = drop k (inputs self)"
      "\<forall>i<k. sign_input c (inputs self ! i) m (key_pairs_of c private_keys) = Inr (ins ! i)"
      by blast
    have "\<exists>m k. signing_message c self = Inr m \<and> k < length (inputs self)
              \<and> sign_input c (inputs self ! k) m (key_pairs_of c private_keys) = Inl e
              \<and> length (inputs self') = length (inputs self)
              \<and> drop k (inputs self') = drop k (inputs self)
              \<and> (\<forall>i<k. sign_input c (inputs self ! i) m (key_pairs_of c private_keys)
                          = Inr (inputs self' ! i))"
      using k Inr self' by (intro exI [of _ m] exI [of _ k]) simp
    then show ?thesis using self' by simp
  next
    case None
    with Inr loop assms have h: "call_hash c (self\<lparr>inputs := ins\<rparr>) = Inl e"
      and self': "self' = self\<lparr>inputs := ins\<rparr>"
      by (auto simp: sign_def split: sum.splits)
    from sign_inputs_success [of c m "key_pairs_of c private_keys" "inputs self" ins] loop None
    have s: "length ins = length (inputs self)"
      "\<forall>i<length (inputs self).
         sign_input c (inputs self ! i) m (key_pairs_of c private_keys) = Inr (ins ! i)"
      by simp_all
    have "\<exists>m. signing_message c self = Inr m \<and> call_hash c self' = Inl e
              \<and> length (inputs self') = length (inputs self)
              \<and> (\<forall>i<length (inputs self).
                     sign_input c (inputs self ! i) m (key_pairs_of c private_keys)
                       = Inr (inputs self' ! i))"
      using s h Inr self' by (intro exI [of _ m]) simp
    then show ?thesis using self' by simp
  qed
qed

lemma partly_signed_result:
  "sign symbolic [''alice''] two_owner_tx = (Some KeypairMismatchException, partly_signed)"
proof -
  have "fst (sign symbolic [''alice''] two_owner_tx) = Some KeypairMismatchException"
    by code_simp
  then show ?thesis by (simp add: partly_signed_def prod_eq_iff)
qed

theorem sign_failure_state_witness:
  "sign symbolic [''alice''] two_owner_tx = (Some KeypairMismatchException, partly_signed)
   \<and> partly_signed\<lparr>inputs := inputs two_owner_tx\<rparr> = two_owner_tx
   \<and> (signing_message symbolic two_owner_tx = Inl KeypairMismatchException
         \<and> partly_signed = two_owner_tx
        \<or> (\<exists>m k. signing_message symbolic two_owner_tx = Inr m
              \<and> k < length (inputs two_owner_tx)
              \<and> sign_input symbolic (inputs two_owner_tx ! k) m (key_pairs_of symbolic [''alice''])
                  = Inl KeypairMismatchException
              \<and> length (inputs partly_signed) = length (inputs two_owner_tx)
              \<and> drop k (inputs partly_signed) = drop k (inputs two_owner_tx)
              \<and> (\<forall>i<k. sign_input symbolic (inputs two_owner_tx ! i) m
                            (key_pairs_of symbolic [''alice''])
                          = Inr (inputs partly_signed ! i)))
        \<or> (\<exists>m. signing_message symbolic two_owner_tx = Inr m
              \<and> call_hash symbolic partly_signed = Inl KeypairMismatchException
              \<and> length (inputs partly_signed) = length (inputs two_owner_tx)
              \<and> (\<forall>i<length (inputs two_owner_tx).
                     sign_input symbolic (inputs two_owner_tx ! i) m
                       (key_pairs_of symbolic [''alice''])
                       = Inr (inputs partly_signed ! i))))
   \<and> inputs partly_signed ! 0 \<noteq> inputs two_owner_tx ! 0
   \<and> inputs partly_signed ! 1 = inputs two_owner_tx ! 1"
proof -
  have pinned: "inputs partly_signed ! 0 \<noteq> inputs two_owner_tx ! 0
      \<and> inputs partly_signed ! 1 = inputs two_owner_tx ! 1"
    unfolding partly_signed_def by code_simp
  show ?thesis
    using sign_failure_state [OF partly_signed_result] partly_signed_result pinned by simp
qed

text \<open>
  C2 as stated fails: signing the transaction with the inputs of two owners with one
  owner's key raises KeypairMismatchException at the second input, and leaves the first
  input signed.
\<close>

theorem sign_failure_mutates_counterexample:
  "fst (sign symbolic [''alice''] two_owner_tx) = Some KeypairMismatchException
   \<and> snd (sign symbolic [''alice''] two_owner_tx) \<noteq> two_owner_tx
   \<and> fulfillment (inputs (snd (sign symbolic [''alice''] two_owner_tx)) ! 0)
       \<noteq> fulfillment (inputs two_owner_tx ! 0)
   \<and> fulfillment (inputs two_owner_tx ! 0) = Some (Ed25519Sha256 ''pub.alice'' None)"
  by code_simp

section \<open>Signing twice\<close>

text \<open>
  C3. Both signings succeed. The second changes the id and the fulfillments of the
  first, and a third changes them again: \<open>sign\<close> serializes the dict with the id the
  earlier signing left in it, both for the message and for the new id. The transaction
  signed once passes \<open>validate_id\<close> and \<open>inputs_valid\<close>, which set the id to null
  first; signed twice it passes neither.
\<close>

theorem signing_twice_changes_the_transaction:
  "fst (sign symbolic [''alice''] create_tx) = None
   \<and> fst (sign symbolic [''alice''] signed_once) = None
   \<and> hash_id signed_twice \<noteq> hash_id signed_once
   \<and> inputs signed_twice \<noteq> inputs signed_once
   \<and> snd (sign symbolic [''alice''] signed_twice) \<noteq> signed_twice
   \<and> validate_id symbolic (to_dict symbolic signed_once) = Inr ()
   \<and> inputs_valid symbolic signed_once None = Inr True
   \<and> validate_id symbolic (to_dict symbolic signed_twice) = Inl InvalidHash
   \<and> inputs_valid symbolic signed_twice None = Inr False"
  by code_simp

section \<open>The inputs of a TRANSFER: links and amounts\<close>

lemma input_valid_errors:
  "input_valid c inp op m u = Inl e \<Longrightarrow> e = AttributeError"
  by (cases "fulfillment inp")
    (auto simp: input_valid_def Let_def split: sum.splits if_splits elim: caught.elims)

lemma call_input_valid_errors:
  "call_input_valid c self inp op m u = Inl e \<Longrightarrow> e = AttributeError \<or> e = TypeError"
  by (auto simp: call_input_valid_def split: if_splits dest: input_valid_errors)

lemma all_valid_errors:
  "all_valid (\<lambda>inp cond. call_input_valid c self inp op m cond) ins conds = Inl e \<Longrightarrow>
   e = AttributeError \<or> e = TypeError \<or> e = IndexError"
proof (induction "\<lambda>inp cond. call_input_valid c self inp op m cond" ins conds
    rule: all_valid.induct)
  case (1 ins)
  then show ?case by simp
next
  case (2 cond conds)
  then show ?case by simp
next
  case (3 inp rest cond conds)
  then show ?case
    by (auto split: sum.splits if_splits dest: call_input_valid_errors)
qed

lemma null_fulfillments_errors:
  "null_fulfillments xs = Inl e \<Longrightarrow> e = TypeError"
  by (induction xs) (auto simp: setitem_def split: sum.splits json.splits)

lemma remove_signatures_errors:
  "remove_signatures tx = Inl e \<Longrightarrow> e = KeyError \<or> e = TypeError"
  by (cases tx)
    (auto simp: remove_signatures_def getitem_def setitem_def
      split: json.splits option.splits sum.splits list.splits
      dest: null_fulfillments_errors)

lemma raise_lib_python: "python_error (raise_lib e)"
  by (cases e) (simp_all add: python_error_def)

lemma to_dict_raises_errors:
  "to_dict_raises c self = Some e \<Longrightarrow> python_error e"
proof -
  have t: "python_error TypeError" by (simp add: python_error_def)
  assume "to_dict_raises c self = Some e"
  then show ?thesis
    using t by (auto simp: to_dict_raises_def split: if_splits option.splits
        intro: raise_lib_python)
qed

lemma dict_for_validation_errors:
  "dict_for_validation c self = Inl e \<Longrightarrow> python_error e"
  by (auto simp: dict_for_validation_def call_to_dict_def
      split: option.splits if_splits dest: to_dict_raises_errors)

lemma inputs_valid_uris_errors:
  "inputs_valid_uris c self uris = Inl e \<Longrightarrow> python_error e"
proof (cases "dict_for_validation c self")
  case (Inl e')
  assume "inputs_valid_uris c self uris = Inl e"
  with Inl dict_for_validation_errors [OF Inl] show ?thesis
    by (auto simp: inputs_valid_uris_def python_error_def split: if_splits)
next
  case (Inr tx)
  assume "inputs_valid_uris c self uris = Inl e"
  with Inr show ?thesis
    by (auto simp: inputs_valid_uris_def setitem_def python_error_def
        split: if_splits sum.splits json.splits
        dest!: remove_signatures_errors all_valid_errors)
qed

lemma inputs_valid_errors:
  "inputs_valid c self outs = Inl e \<Longrightarrow> python_error e"
  by (auto simp: inputs_valid_def split: if_splits option.splits
      dest: inputs_valid_uris_errors) (simp add: python_error_def)+

lemma inputs_valid_no_amount_error:
  "inputs_valid c self outs \<noteq> Inl AmountError"
  "inputs_valid c self outs \<noteq> Inl DoubleSpend"
  using inputs_valid_errors [of c self outs] by (auto simp: python_error_def)

lemma getitem_errors:
  "getitem d k = Inl e \<Longrightarrow> e = KeyError \<or> e = TypeError"
  by (auto simp: getitem_def split: json.splits option.splits)

lemma asset_ids_errors:
  "asset_ids txs = Inl e \<Longrightarrow> e = KeyError \<or> e = TypeError"
  by (induction txs) (auto split: sum.splits if_splits dest: getitem_errors)

lemma get_asset_id_errors:
  "get_asset_id txs = Inl e \<Longrightarrow> e = KeyError \<or> e = TypeError \<or> e = AssetIdMismatch"
  by (auto simp: get_asset_id_def split: sum.splits list.splits if_splits
      dest: asset_ids_errors)

lemma distinct_length_remdups:
  "(length xs \<noteq> length (remdups xs)) = (\<not> distinct xs)"
proof -
  have "(length (remdups xs) = length xs) = distinct xs"
    by (simp add: length_remdups_eq remdups_id_iff_distinct)
  then show ?thesis by metis
qed

text \<open>The function once the first loop and the links are known.\<close>

lemma validate_transfer_inputs_resolved:
  assumes "resolve_inputs planet cur (inputs self) = Inr (conds, txs)"
    and "input_links c (inputs self) = Inr links"
  shows "validate_transfer_inputs c planet cur self =
     (if \<not> distinct links then Inl DoubleSpend
      else (case get_asset_id txs of
              Inl e \<Rightarrow> Inl e
            | Inr asset_id \<Rightarrow>
                (case getitem (asset self) ''id'' of
                   Inl e \<Rightarrow> Inl e
                 | Inr own_asset_id \<Rightarrow>
                     if py_key asset_id \<noteq> py_key own_asset_id then Inl AssetIdMismatch
                     else if amounts (outputs self) \<noteq> amounts conds then Inl AmountError
                     else (case inputs_valid c self (Some conds) of
                             Inl e \<Rightarrow> Inl e
                           | Inr ok \<Rightarrow> if ok then Inr True else Inl InvalidSignature))))"
  using assms by (simp add: validate_transfer_inputs_def distinct_length_remdups)

lemma resolve_inputs_links:
  "resolve_inputs planet cur ins = Inr r \<Longrightarrow> \<exists>ls. map fulfills ins = map Some ls"
proof (induction ins arbitrary: r)
  case Nil
  then show ?case by simp
next
  case (Cons inp rest)
  from Cons.prems obtain link r' where l: "fulfills inp = Some link"
    and r': "resolve_inputs planet cur rest = Inr r'"
    by (auto split: option.splits sum.splits if_splits)
  from Cons.IH [OF r'] obtain ls where "map fulfills rest = map Some ls" by blast
  with l have "map fulfills (inp # rest) = map Some (link # ls)" by simp
  then show ?case by blast
qed

lemma input_links_Some:
  "map fulfills ins = map Some ls \<Longrightarrow> input_links c ins = Inr (map (to_uri c) ls)"
  by (induction ins arbitrary: ls) auto

lemma same_link_not_distinct:
  assumes "map fulfills ins = map Some ls" "i < j" "j < length ins"
    "fulfills (ins ! i) = fulfills (ins ! j)"
  shows "\<not> distinct ls"
proof -
  have len: "length ls = length ins" using assms(1) by (metis length_map)
  have "Some (ls ! i) = Some (ls ! j)"
    using assms len by (metis nth_map less_trans)
  then have "ls ! i = ls ! j" by simp
  moreover have "i < length ls" "j < length ls" "i \<noteq> j" using assms(2,3) len by simp_all
  ultimately show ?thesis by (metis nth_eq_iff_index_eq)
qed

lemma resolve_inputs_errors:
  "resolve_inputs planet cur ins = Inl e \<Longrightarrow>
   e \<in> {AttributeError, InputDoesNotExist, DoubleSpend, IndexError}"
  by (induction ins)
    (auto simp: list_index_def split: option.splits sum.splits if_splits)

lemma input_links_errors:
  "input_links c ins = Inl e \<Longrightarrow> e = AttributeError"
  by (induction ins) (auto split: option.splits sum.splits)

lemma amount_error_only_if:
  assumes "validate_transfer_inputs c planet cur self = Inl AmountError"
  shows "\<exists>conds txs. resolve_inputs planet cur (inputs self) = Inr (conds, txs)
           \<and> amounts (outputs self) \<noteq> amounts conds"
proof (cases "resolve_inputs planet cur (inputs self)")
  case (Inl e)
  with assms resolve_inputs_errors [OF Inl] show ?thesis
    by (auto simp: validate_transfer_inputs_def)
next
  case (Inr r)
  obtain conds txs where r: "r = (conds, txs)" by (cases r)
  from resolve_inputs_links [OF Inr] obtain ls where "map fulfills (inputs self) = map Some ls"
    by blast
  then have links: "input_links c (inputs self) = Inr (map (to_uri c) ls)"
    by (rule input_links_Some)
  have "amounts (outputs self) \<noteq> amounts conds"
    using assms validate_transfer_inputs_resolved [OF Inr [unfolded r] links]
      inputs_valid_no_amount_error(1) [of c self "Some conds"]
    by (auto split: if_splits sum.splits dest: get_asset_id_errors getitem_errors)
  with Inr r show ?thesis by blast
qed

text \<open>
  C6, as the code has it. When the checks before the amounts pass (every input
  resolves to an unspent output, the links are pairwise distinct, the inputs' asset id
  is the transaction's), AmountError is raised exactly when the two sums differ; and
  AmountError is never raised unless the inputs resolve and the sums differ. Amounts are
  positive integers: an output's amount is at least 1 and at most the largest amount,
  and building an output with another amount raises AmountError.
\<close>

theorem amount_error_iff:
  assumes "resolve_inputs planet cur (inputs self) = Inr (conds, txs)"
    and "input_links c (inputs self) = Inr links" and "distinct links"
    and "get_asset_id txs = Inr a" and "getitem (asset self) ''id'' = Inr a'"
    and "py_key a = py_key a'"
  shows "(validate_transfer_inputs c planet cur self = Inl AmountError)
           = (amounts conds \<noteq> amounts (outputs self))
     \<and> (\<forall>planet' cur' self'.
          validate_transfer_inputs c planet' cur' self' = Inl AmountError \<longrightarrow>
          (\<exists>conds' txs'. resolve_inputs planet' cur' (inputs self') = Inr (conds', txs')
             \<and> amounts conds' \<noteq> amounts (outputs self')))
     \<and> (\<forall>max_amount ffill keys n out.
          output_init max_amount ffill keys n = Inr out \<longrightarrow>
          0 < amount out \<and> amount out \<le> max_amount)
     \<and> (\<forall>max_amount ffill keys n.
          n < 1 \<or> max_amount < n \<longrightarrow> output_init max_amount ffill keys n = Inl AmountError)"
proof -
  have "(validate_transfer_inputs c planet cur self = Inl AmountError)
           = (amounts conds \<noteq> amounts (outputs self))"
    using validate_transfer_inputs_resolved [OF assms(1,2)] assms(3-6)
      inputs_valid_no_amount_error(1) [of c self "Some conds"]
    by (auto split: sum.splits)
  moreover have "\<forall>planet' cur' self'.
          validate_transfer_inputs c planet' cur' self' = Inl AmountError \<longrightarrow>
          (\<exists>conds' txs'. resolve_inputs planet' cur' (inputs self') = Inr (conds', txs')
             \<and> amounts conds' \<noteq> amounts (outputs self'))"
    using amount_error_only_if by (metis (no_types))
  moreover have "\<forall>max_amount ffill keys n out.
          output_init max_amount ffill keys n = Inr out \<longrightarrow>
          0 < amount out \<and> amount out \<le> max_amount"
    by (auto simp: output_init_def split: if_splits)
  moreover have "\<forall>max_amount ffill keys n.
          n < 1 \<or> max_amount < n \<longrightarrow> output_init max_amount ffill keys n = Inl AmountError"
    by (auto simp: output_init_def)
  ultimately show ?thesis by blast
qed

lemma store_resolves:
  "resolve_inputs store [] [transfer_input ''tx0'' 0, transfer_input ''tx0'' 1] =
     Inr ([alice_output\<lparr>amount := 60\<rparr>, alice_output\<lparr>amount := 40\<rparr>], [prior_tx, prior_tx])"
  by (simp add: store_def transfer_input_def prior_tx_def list_index_def)

lemma transfer_links:
  "input_links symbolic [transfer_input ''tx0'' 0, transfer_input ''tx0'' 1] =
     Inr [''tx0:0'', ''tx0:1'']"
  by (simp add: transfer_input_def symbolic_def sym_to_uri_def str_int_def str_pos.simps
      digit_char_def)

lemma prior_asset_id: "get_asset_id [prior_tx, prior_tx] = Inr (JStr ''tx0'')"
  by (simp add: get_asset_id_def prior_tx_def create_tx_def hashable_def py_key_def)

theorem amount_error_iff_witness:
  "resolve_inputs store [] (inputs overspend_tx) =
     Inr ([alice_output\<lparr>amount := 60\<rparr>, alice_output\<lparr>amount := 40\<rparr>], [prior_tx, prior_tx])
   \<and> input_links symbolic (inputs overspend_tx) = Inr [''tx0:0'', ''tx0:1'']
   \<and> distinct [''tx0:0'', ''tx0:1'']
   \<and> get_asset_id [prior_tx, prior_tx] = Inr (JStr ''tx0'')
   \<and> getitem (asset overspend_tx) ''id'' = Inr (JStr ''tx0'')
   \<and> amounts [alice_output\<lparr>amount := 60\<rparr>, alice_output\<lparr>amount := 40\<rparr>] = 100
   \<and> amounts (outputs overspend_tx) = 110
   \<and> validate_transfer_inputs symbolic store [] overspend_tx = Inl AmountError
   \<and> output_init sym_max_amount (Ed25519Sha256 ''pub.alice'' None) [''pub.alice''] 1
       = Inr alice_output
   \<and> output_init sym_max_amount (Ed25519Sha256 ''pub.alice'' None) [''pub.alice''] 0
       = Inl AmountError"
proof -
  have a: "resolve_inputs store [] (inputs overspend_tx) =
     Inr ([alice_output\<lparr>amount := 60\<rparr>, alice_output\<lparr>amount := 40\<rparr>], [prior_tx, prior_tx])"
    using store_resolves by (simp add: overspend_tx_def transfer_tx_def)
  have b: "input_links symbolic (inputs overspend_tx) = Inr [''tx0:0'', ''tx0:1'']"
    using transfer_links by (simp add: overspend_tx_def transfer_tx_def)
  have d: "distinct [''tx0:0'', ''tx0:1'']" by simp
  have g: "getitem (asset overspend_tx) ''id'' = Inr (JStr ''tx0'')"
    by (simp add: overspend_tx_def transfer_tx_def getitem_def)
  have k: "py_key (JStr ''tx0'') = py_key (JStr ''tx0'')" by simp
  have s: "amounts [alice_output\<lparr>amount := 60\<rparr>, alice_output\<lparr>amount := 40\<rparr>] = 100"
    "amounts (outputs overspend_tx) = 110"
    by (simp_all add: amounts_def overspend_tx_def)
  have o: "output_init sym_max_amount (Ed25519Sha256 ''pub.alice'' None) [''pub.alice''] 1
       = Inr alice_output"
    by (simp add: output_init_def sym_max_amount_def alice_output_def)
  have z: "(0::int) < 1 \<or> sym_max_amount < 0" by simp
  show ?thesis
    using amount_error_iff [OF a b d prior_asset_id g k] a b d prior_asset_id g s o z
    by simp
qed

text \<open>
  C6 as stated fails. The inputs of the transaction that spends the first output twice
  all resolve and the sums differ (120 and 100), and DoubleSpend is raised, not
  AmountError.
\<close>

theorem amount_check_counterexample:
  "(case resolve_inputs store [] (inputs double_link_tx) of
      Inl e \<Rightarrow> False
    | Inr (conds, txs) \<Rightarrow> amounts conds \<noteq> amounts (outputs double_link_tx))
   \<and> validate_transfer_inputs symbolic store [] double_link_tx = Inl DoubleSpend"
  by code_simp

lemma not_double_spend_after_links:
  assumes "resolve_inputs planet cur (inputs self) = Inr (conds, txs)"
    and "input_links c (inputs self) = Inr links" and "distinct links"
  shows "validate_transfer_inputs c planet cur self \<noteq> Inl DoubleSpend"
  using validate_transfer_inputs_resolved [OF assms(1,2)] assms(3)
    inputs_valid_no_amount_error(2) [of c self "Some conds"]
  by (auto split: sum.splits if_splits dest: get_asset_id_errors getitem_errors)

text \<open>
  C7, as the code has it. When the first loop raises nothing but DoubleSpend (every
  input resolves), two inputs with the same link make \<open>validate_transfer_inputs\<close> raise
  DoubleSpend. When the loop completes, the links are pairwise distinct and \<open>to_uri\<close>
  tells them apart, DoubleSpend is not raised: the check of distinctness passes.
\<close>

theorem same_link_is_double_spend:
  assumes "resolve_inputs planet cur (inputs self) = Inr r
           \<or> resolve_inputs planet cur (inputs self) = Inl DoubleSpend"
  shows "(i < j \<and> j < length (inputs self)
          \<and> fulfills (inputs self ! i) = fulfills (inputs self ! j)
          \<longrightarrow> validate_transfer_inputs c planet cur self = Inl DoubleSpend)
     \<and> (resolve_inputs planet cur (inputs self) = Inr r
          \<and> distinct (map fulfills (inputs self))
          \<and> inj_on (to_uri c) {link. Some link \<in> set (map fulfills (inputs self))}
          \<longrightarrow> validate_transfer_inputs c planet cur self \<noteq> Inl DoubleSpend)"
proof (cases "resolve_inputs planet cur (inputs self)")
  case (Inl e)
  with assms have "e = DoubleSpend" by simp
  with Inl show ?thesis by (simp add: validate_transfer_inputs_def)
next
  case (Inr r')
  obtain conds txs where r': "r' = (conds, txs)" by (cases r')
  note res = Inr [unfolded r']
  from resolve_inputs_links [OF Inr] obtain ls
    where ls: "map fulfills (inputs self) = map Some ls" by blast
  have links: "input_links c (inputs self) = Inr (map (to_uri c) ls)"
    using ls by (rule input_links_Some)
  have same: "validate_transfer_inputs c planet cur self = Inl DoubleSpend"
    if "i < j" "j < length (inputs self)"
      "fulfills (inputs self ! i) = fulfills (inputs self ! j)"
  proof -
    have "\<not> distinct ls" using ls that by (rule same_link_not_distinct)
    then have "\<not> distinct (map (to_uri c) ls)" using distinct_map by blast
    then show ?thesis using validate_transfer_inputs_resolved [OF res links] by simp
  qed
  have other: "validate_transfer_inputs c planet cur self \<noteq> Inl DoubleSpend"
    if d: "distinct (map fulfills (inputs self))"
      and inj: "inj_on (to_uri c) {link. Some link \<in> set (map fulfills (inputs self))}"
  proof -
    have "distinct ls" using d ls by (simp add: distinct_map)
    moreover have "set ls \<subseteq> {link. Some link \<in> set (map fulfills (inputs self))}"
      using ls by auto
    then have "inj_on (to_uri c) (set ls)" using inj by (rule inj_on_subset [rotated])
    ultimately have "distinct (map (to_uri c) ls)" by (simp add: distinct_map)
    then show ?thesis using not_double_spend_after_links [OF res links] by simp
  qed
  show ?thesis using same other by blast
qed

theorem same_link_is_double_spend_witness:
  "resolve_inputs store [] (inputs double_link_tx) =
     Inr ([alice_output\<lparr>amount := 60\<rparr>, alice_output\<lparr>amount := 60\<rparr>], [prior_tx, prior_tx])
   \<and> fulfills (inputs double_link_tx ! 0) = fulfills (inputs double_link_tx ! 1)
   \<and> validate_transfer_inputs symbolic store [] double_link_tx = Inl DoubleSpend
   \<and> resolve_inputs store [] (inputs transfer_tx) =
     Inr ([alice_output\<lparr>amount := 60\<rparr>, alice_output\<lparr>amount := 40\<rparr>], [prior_tx, prior_tx])
   \<and> map fulfills (inputs transfer_tx) =
       [Some \<lparr>txid = ''tx0'', output_index = 0\<rparr>, Some \<lparr>txid = ''tx0'', output_index = 1\<rparr>]
   \<and> validate_transfer_inputs symbolic store [] transfer_tx \<noteq> Inl DoubleSpend"
proof -
  have r: "resolve_inputs store [] (inputs double_link_tx) =
     Inr ([alice_output\<lparr>amount := 60\<rparr>, alice_output\<lparr>amount := 60\<rparr>], [prior_tx, prior_tx])"
    by (simp add: double_link_tx_def transfer_tx_def store_def transfer_input_def prior_tx_def
        list_index_def)
  have same: "fulfills (inputs double_link_tx ! 0) = fulfills (inputs double_link_tx ! 1)"
    by (simp add: double_link_tx_def)
  have len: "(0::nat) < 1 \<and> 1 < length (inputs double_link_tx)"
    by (simp add: double_link_tx_def)
  have one: "validate_transfer_inputs symbolic store [] double_link_tx = Inl DoubleSpend"
    using same_link_is_double_spend [of store "[]" double_link_tx _ 0 1 symbolic] r same len
    by blast
  have r2: "resolve_inputs store [] (inputs transfer_tx) =
     Inr ([alice_output\<lparr>amount := 60\<rparr>, alice_output\<lparr>amount := 40\<rparr>], [prior_tx, prior_tx])"
    using store_resolves by (simp add: transfer_tx_def)
  have m: "map fulfills (inputs transfer_tx) =
       [Some \<lparr>txid = ''tx0'', output_index = 0\<rparr>, Some \<lparr>txid = ''tx0'', output_index = 1\<rparr>]"
    by (simp add: transfer_tx_def transfer_input_def)
  have d: "distinct (map fulfills (inputs transfer_tx))" unfolding m by simp
  have set_eq: "{link. Some link \<in> set (map fulfills (inputs transfer_tx))} =
      {\<lparr>txid = ''tx0'', output_index = 0\<rparr>, \<lparr>txid = ''tx0'', output_index = 1\<rparr>}"
    unfolding m by auto
  have inj: "inj_on (to_uri symbolic) {link. Some link \<in> set (map fulfills (inputs transfer_tx))}"
    unfolding set_eq
    by (simp add: symbolic_def sym_to_uri_def str_int_def str_pos.simps digit_char_def)
  have two: "validate_transfer_inputs symbolic store [] transfer_tx \<noteq> Inl DoubleSpend"
    using same_link_is_double_spend [of store "[]" transfer_tx _ 0 1 symbolic] r2 d inj
    by blast
  show ?thesis using r same one r2 m two by simp
qed

text \<open>
  C7 as stated fails: two inputs with the same link to a transaction that does not
  exist make \<open>validate_transfer_inputs\<close> raise InputDoesNotExist.
\<close>

theorem unresolved_link_counterexample:
  "fulfills (inputs dangling_tx ! 0) = fulfills (inputs dangling_tx ! 1)
   \<and> operation dangling_tx = TRANSFER
   \<and> validate_transfer_inputs symbolic store [] dangling_tx = Inl InputDoesNotExist"
  by (simp add: dangling_tx_def transfer_tx_def validate_transfer_inputs_def store_def
      transfer_input_def)

section \<open>From a dict and back\<close>

lemma py_eq_refl: "py_eq x x"
proof (induction x)
  case (JList xs)
  then have "list_all2 py_eq xs xs" by (simp add: list.rel_refl_strong)
  then show ?case by (rule py_eq.lists)
next
  case (JObj kvs)
  have "rel_option py_eq (map_of kvs k) (map_of kvs k)" for k
  proof (cases "map_of kvs k")
    case None
    then show ?thesis by simp
  next
    case (Some v)
    then have "(k, v) \<in> set kvs" by (rule map_of_SomeD)
    then have "py_eq v v" using JObj by fastforce
    with Some show ?thesis by simp
  qed
  then show ?case by (rule py_eq.dicts)
qed (simp_all add: py_eq.scalars hashable_def)

text \<open>
  C8. For a well-formed transaction dict (exactly the seven keys, an operation its
  class allows, an asset of the operation's shape, metadata null or a dict, a version,
  an id that is null or hexadecimal, lists of inputs and outputs that \<open>Input\<close> and
  \<open>Output\<close> convert and give back), \<open>from_dict\<close> returns a transaction whose \<open>to_dict\<close>
  returns a dict equal to the given one, whatever the order of the keys, at the top and
  inside.
\<close>

theorem to_dict_from_dict:
  assumes keys: "distinct (map fst kvs)" "set (map fst kvs) = tx_keys"
    and op: "map_of kvs ''operation'' = Some (JStr op)"
      "resolve_class type_registry (JStr op) = Inr (Some cls)"
      "op \<in> set (ALLOWED_OPERATIONS cls)"
    and asset: "map_of kvs ''asset'' = Some a"
      "op = CREATE \<longrightarrow> a = JNull \<or> dict_with a ''data''"
      "op = TRANSFER \<longrightarrow> dict_with a ''id''"
    and metadata: "map_of kvs ''metadata'' = Some m" "m = JNull \<or> is_dict m"
    and version: "map_of kvs ''version'' = Some v" "v \<noteq> JNull"
    and ins: "map_of kvs ''inputs'' = Some (JList ins)"
      "\<forall>j\<in>set ins. \<exists>i. input_from_dict c j = Inr i \<and> input_to_dict_raises c i = None
          \<and> py_eq (input_to_dict c i) j"
    and outs: "map_of kvs ''outputs'' = Some (JList outs)"
      "\<forall>j\<in>set outs. \<exists>out. output_from_dict c j = Inr out \<and> output_to_dict_raises c out = None
          \<and> py_eq (output_to_dict c out) j"
    and ident: "map_of kvs ''id'' = Some h" "h = JNull \<or> (\<exists>s. h = JStr s \<and> is_hex s)"
    and skip: "skip \<or> validate_id c (JObj kvs) = Inr ()"
  shows "\<exists>t d. from_dict c type_registry (JObj kvs) skip = Inr t
           \<and> call_to_dict c t = Inr d \<and> py_eq d (JObj kvs)"
proof -
  have ins2: "\<forall>j\<in>set ins. \<exists>i. (input_from_dict c j = Inr i \<and> input_to_dict_raises c i = None)
      \<and> py_eq (input_to_dict c i) j"
    using ins(2) by blast
  have outs2: "\<forall>j\<in>set outs. \<exists>out. (output_from_dict c j = Inr out
      \<and> output_to_dict_raises c out = None) \<and> py_eq (output_to_dict c out) j"
    using outs(2) by blast
  have conv: "\<exists>ys. comprehension f xs = Inr ys \<and> list_all2 py_eq (map g ys) xs
      \<and> first_raise r ys = None"
    if "\<forall>j\<in>set xs. \<exists>i. f j = Inr i \<and> r i = None \<and> py_eq (g i) j"
    for f :: "json \<Rightarrow> exn + 'b" and g r xs
    using that
  proof (induction xs)
    case Nil
    then show ?case by simp
  next
    case (Cons x xs)
    then obtain i where i: "f x = Inr i" "r i = None" "py_eq (g i) x" by auto
    from Cons obtain ys where ys: "comprehension f xs = Inr ys"
      "list_all2 py_eq (map g ys) xs" "first_raise r ys = None"
      by auto
    have "comprehension f (x # xs) = Inr (i # ys)
        \<and> list_all2 py_eq (map g (i # ys)) (x # xs) \<and> first_raise r (i # ys) = None"
      using i ys by simp
    then show ?case by (rule exI)
  qed
  from conv [OF ins(2)] obtain ins'
    where ins': "comprehension (input_from_dict c) ins = Inr ins'"
      "list_all2 py_eq (map (input_to_dict c) ins') ins"
      "first_raise (input_to_dict_raises c) ins' = None"
    by blast
  from conv [OF outs(2)] obtain outs'
    where outs': "comprehension (output_from_dict c) outs = Inr outs'"
      "list_all2 py_eq (map (output_to_dict c) outs') outs"
      "first_raise (output_to_dict_raises c) outs' = None"
    by blast
  define t where "t = \<lparr>version = v, operation = op, asset = a, inputs = ins', outputs = outs',
     metadata = m, hash_id = h, tx_dict = Some (JObj kvs)\<rparr>"
  have init: "tx_init cls (JStr op) a ins' outs' m v h (Some (JObj kvs)) = Inr t"
    using op(3) asset(2,3) metadata(2) version(2)
    by (auto simp: tx_init_def t_def)
  have pre: "\<not> skip \<Longrightarrow> validate_id c (JObj kvs) = Inr ()"
    using skip by auto
  have body: "from_dict_body c type_registry (JObj kvs) skip = Inr t"
    using op(1,2) asset(1) metadata(1) version(1) ins(1) outs(1) ident(1) ins'(1) outs'(1)
      init pre
    by (cases skip)
      (simp_all add: from_dict_body_def getitem_def items_from_dict_def py_iter_def)
  have fd: "from_dict c type_registry (JObj kvs) skip = Inr t"
    using body ident by (auto simp: from_dict_def memoize_from_dict_def)
  have hash: "hashable h" using ident(2) by (auto simp: hashable_def)
  have td: "call_to_dict c t = Inr (to_dict c t)"
    using ins'(3) outs'(3) hash
    by (simp add: call_to_dict_def to_dict_raises_def t_def)
  define kvs' where "kvs' = [(''inputs'', JList (map (input_to_dict c) ins')),
     (''outputs'', JList (map (output_to_dict c) outs')),
     (''operation'', JStr op), (''metadata'', m), (''asset'', a), (''version'', v), (''id'', h)]"
  have d: "to_dict c t = JObj kvs'"
    by (simp add: to_dict_def t_def kvs'_def)
  have "rel_option py_eq (map_of kvs' k) (map_of kvs k)" for k
  proof (cases "k \<in> tx_keys")
    case True
    have l1: "py_eq (JList (map (input_to_dict c) ins')) (JList ins)"
      using ins'(2) by (rule py_eq.lists)
    have l2: "py_eq (JList (map (output_to_dict c) outs')) (JList outs)"
      using outs'(2) by (rule py_eq.lists)
    from True show ?thesis
      using op(1) asset(1) metadata(1) version(1) ins(1) outs(1) ident(1) l1 l2
      by (auto simp: tx_keys_def kvs'_def py_eq_refl)
  next
    case False
    then have "map_of kvs k = None" using keys(2) by (simp add: map_of_eq_None_iff)
    moreover have "map_of kvs' k = None" using False by (auto simp: tx_keys_def kvs'_def)
    ultimately show ?thesis by simp
  qed
  then have "py_eq (JObj kvs') (JObj kvs)" by (rule py_eq.dicts)
  with fd td d show ?thesis by simp
qed

lemma parse_signed_input:
  "parse_input (wire_input
      (alice_input\<lparr>fulfillment := Some (Ed25519Sha256 ''pub.alice'' (Some ''signature''))\<rparr>)) =
   Inr (alice_input\<lparr>fulfillment := Some (Ed25519Sha256 ''pub.alice'' (Some ''signature''))\<rparr>)"
  by (simp add: parse_input_def wire_input_def alice_input_def getitem_def wire_fulfillment_def
      parse_fulfillment_def sym_from_uri_def parse_link_def strings_of_def)

lemma parse_alice_output:
  "parse_output (wire_output alice_output) = Inr alice_output"
  by (simp add: parse_output_def wire_output_def alice_output_def getitem_def
      parse_fulfillment_def ed25519_details_def strings_of_def parse_amount_def
      str_int_def str_pos.simps digit_char_def digit_value_def output_init_def
      sym_max_amount_def)

theorem to_dict_from_dict_witness:
  "distinct (map fst wire_items) \<and> set (map fst wire_items) = tx_keys
   \<and> map_of wire_items ''operation'' = Some (JStr CREATE)
   \<and> resolve_class base_registry (JStr CREATE) = Inr (Some Transaction)
   \<and> CREATE \<in> set (ALLOWED_OPERATIONS Transaction)
   \<and> map_of wire_items ''id''
       = Some (JStr ''4f2a9c0e7b1d8a3650c4e9f1b2d7a8c3e6f5041928b7c6d5e4f3a2b1c0d9e8f7'')
   \<and> is_hex ''4f2a9c0e7b1d8a3650c4e9f1b2d7a8c3e6f5041928b7c6d5e4f3a2b1c0d9e8f7''
   \<and> (\<exists>t d. from_dict symbolic base_registry (JObj wire_items) True = Inr t
           \<and> call_to_dict symbolic t = Inr d \<and> py_eq d (JObj wire_items))"
proof -
  have k: "distinct (map fst wire_items)" "set (map fst wire_items) = tx_keys"
    by (auto simp: wire_items_def tx_keys_def)
  have op: "map_of wire_items ''operation'' = Some (JStr CREATE)"
    "resolve_class base_registry (JStr CREATE) = Inr (Some Transaction)"
    "CREATE \<in> set (ALLOWED_OPERATIONS Transaction)"
    by (simp_all add: wire_items_def resolve_class_def base_registry_def Transaction_def
        CREATE_def TRANSFER_def)
  have a: "map_of wire_items ''asset'' = Some (JObj [(''data'', JNull)])"
    "CREATE = CREATE \<longrightarrow> JObj [(''data'', JNull)] = JNull \<or> dict_with (JObj [(''data'', JNull)]) ''data''"
    "CREATE = TRANSFER \<longrightarrow> dict_with (JObj [(''data'', JNull)]) ''id''"
    by (simp_all add: wire_items_def dict_with_def CREATE_def TRANSFER_def)
  have m: "map_of wire_items ''metadata'' = Some JNull" "JNull = JNull \<or> is_dict JNull"
    by (simp_all add: wire_items_def)
  have v: "map_of wire_items ''version'' = Some (JStr VERSION)" "JStr VERSION \<noteq> JNull"
    by (simp_all add: wire_items_def)
  have i: "map_of wire_items ''inputs'' = Some (JList [wire_input
         (alice_input\<lparr>fulfillment := Some (Ed25519Sha256 ''pub.alice'' (Some ''signature''))\<rparr>)])"
    "\<forall>j\<in>set [wire_input
         (alice_input\<lparr>fulfillment := Some (Ed25519Sha256 ''pub.alice'' (Some ''signature''))\<rparr>)].
       \<exists>i. input_from_dict symbolic j = Inr i \<and> input_to_dict_raises symbolic i = None
         \<and> py_eq (input_to_dict symbolic i) j"
    using parse_signed_input
    by (simp_all add: wire_items_def symbolic_def py_eq_refl sym_input_to_dict_raises_def
        alice_input_def)
  have o: "map_of wire_items ''outputs'' = Some (JList [wire_output alice_output])"
    "\<forall>j\<in>set [wire_output alice_output].
       \<exists>out. output_from_dict symbolic j = Inr out \<and> output_to_dict_raises symbolic out = None
         \<and> py_eq (output_to_dict symbolic out) j"
    using parse_alice_output by (simp_all add: wire_items_def symbolic_def py_eq_refl)
  have hx: "is_hex ''4f2a9c0e7b1d8a3650c4e9f1b2d7a8c3e6f5041928b7c6d5e4f3a2b1c0d9e8f7''"
    by (simp add: is_hex_def)
  have h: "map_of wire_items ''id''
       = Some (JStr ''4f2a9c0e7b1d8a3650c4e9f1b2d7a8c3e6f5041928b7c6d5e4f3a2b1c0d9e8f7'')"
    "JStr ''4f2a9c0e7b1d8a3650c4e9f1b2d7a8c3e6f5041928b7c6d5e4f3a2b1c0d9e8f7'' = JNull
     \<or> (\<exists>s. JStr ''4f2a9c0e7b1d8a3650c4e9f1b2d7a8c3e6f5041928b7c6d5e4f3a2b1c0d9e8f7'' = JStr s
          \<and> is_hex s)"
    using hx by (simp_all add: wire_items_def)
  have s: "True \<or> validate_id symbolic (JObj wire_items) = Inr ()" by simp
  show ?thesis
    using to_dict_from_dict [OF k op a m v i o h s] k op h(1) hx by simp
qed

end
